theory Spec2Isabelle
  imports Main
begin

section \<open>gvm-cli: the session orchestration of \<open>main\<close> in gmp/clients/gvm_cli.py\<close>

text \<open>
  The module has one function, \<open>main\<close>. It reads the command line and an optional
  configuration file, acquires the XML request, asks for a password when one is missing,
  opens one connection, and drives authenticate, send, read and close on it.

  The model follows \<open>main\<close> line by line. Everything \<open>main\<close> does to the outside is an
  \<open>event\<close> in a trace; everything the outside answers is a field of a \<open>world\<close>. A raised
  exception is a value, and the way a run ends is an \<open>outcome\<close>: a call of \<open>sys.exit\<close> or
  an exception that leaves \<open>main\<close> uncaught.

  The calls that can raise are: reading the configuration, opening and reading the input
  file, the set-up of logging, \<open>input\<close>, \<open>getpass\<close>, the constructor of the connection, its
  methods, and the print of the response at line 220. The short prints of the handlers
  (lines 104, 180 and 211) are taken to return.
\<close>

subsection \<open>Exceptions, outcomes, events\<close>

text \<open>
  The handlers tell these sorts of exception apart: \<open>EOFError\<close> and \<open>BlockingIOError\<close>
  (line 179); \<open>ValueError\<close>, which \<open>argparse\<close> turns into a usage error when the \<open>type\<close>
  function of an argument raises it; any other subclass of \<open>Exception\<close> (lines 103 and
  210); and what is raised outside of \<open>Exception\<close>, as \<open>KeyboardInterrupt\<close> is, which no
  handler of \<open>main\<close> catches.
\<close>

datatype exn_class = EOFError | BlockingIOError | ValueError | Other_Exception | Non_Exception

datatype exn = Exn (exn_class: exn_class) (message: string)

definition is_Exception :: "exn \<Rightarrow> bool" where
  "is_Exception e = (exn_class e \<noteq> Non_Exception)"

datatype outcome = Exit int | Uncaught exn

text \<open>
  The status of the process, which the interpreter sets: the argument of \<open>sys.exit\<close>, and
  1 after the traceback of an uncaught \<open>Exception\<close>. For what is raised outside of
  \<open>Exception\<close> the model gives no status.
\<close>

definition process_status :: "outcome \<Rightarrow> int option" where
  "process_status out =
     (case out of
        Exit n \<Rightarrow> Some n
      | Uncaught e \<Rightarrow> if is_Exception e then Some 1 else None)"

datatype port = Port_int int | Port_str string

datatype connection =
    UnixSocketConnection "string option" bool "int option"
  | TLSConnection string port "string option" "string option" "string option" bool "int option"
  | SSHConnection string port "int option" bool string string

datatype event =
    Print string
  | Open_infile string
  | Logging string
  | Infile_read
  | Input
  | Getpass string
  | Construct connection
  | Authenticate string "string option"
  | Send string
  | Read
  | Close

text \<open>
  A step of \<open>main\<close>: the events it caused, and either the way the run ended there or the
  value the step computed.
\<close>

type_synonym 'a step = "event list \<times> (outcome + 'a)"

definition and_then :: "'a step \<Rightarrow> ('a \<Rightarrow> 'b step) \<Rightarrow> 'b step" where
  "and_then m f =
     (case m of
        (es, Inl stop) \<Rightarrow> (es, Inl stop)
      | (es, Inr x) \<Rightarrow> (case f x of (es', r) \<Rightarrow> (es @ es', r)))"

text \<open>A call that returns nothing and may raise; no handler is around it.\<close>

definition call :: "event \<Rightarrow> exn option \<Rightarrow> unit step" where
  "call ev r = (case r of None \<Rightarrow> ([ev], Inr ()) | Some e \<Rightarrow> ([ev], Inl (Uncaught e)))"

text \<open>A call that returns a value and may raise; no handler is around it.\<close>

definition call_value :: "event \<Rightarrow> exn + 'a \<Rightarrow> 'a step" where
  "call_value ev r = (case r of Inr v \<Rightarrow> ([ev], Inr v) | Inl e \<Rightarrow> ([ev], Inl (Uncaught e)))"

subsection \<open>The command line and the collaborators\<close>

text \<open>
  The command line as \<open>argparse\<close> reads it. A flag declared with \<open>nargs='?'\<close> is absent,
  given bare, or given with a value. The sub-command comes with the flags of its own
  sub-parser (lines 123 to 152); \<open>Other\<close> is a token in its place that need not be one of
  the three names. The shared flags are those of lines 86 to 122; the value of \<open>--log\<close> is
  one of its choices and the value of \<open>--timeout\<close> is an integer. \<open>--help\<close> and
  \<open>--version\<close>, which print and leave, are not part of it, nor is a line with an argument
  that its sub-parser does not know.
\<close>

datatype 'a nargs_opt = Absent | Bare | Given 'a

datatype log_choice = DEBUG | INFO | WARNING | ERROR | CRITICAL

datatype command =
    Ssh "string option" "string option" "string option"
  | Tls "string option" "string option" "string option" "string option" "string option"
  | Socket "string nargs_opt"
  | Other string

record cmdline =
  opt_config :: "string nargs_opt"
  command :: "command option"
  opt_timeout :: "int option"
  opt_log :: "log_choice nargs_opt"
  opt_gmp_username :: "string option"
  opt_gmp_password :: "string option"
  opt_xml :: "string option"
  opt_raw :: bool
  opt_infile :: "string option"

text \<open>The token that stands for the sub-command on the line.\<close>

definition token_of :: "command \<Rightarrow> string" where
  "token_of c =
     (case c of
        Ssh hostname port ssh_user \<Rightarrow> ''ssh''
      | Tls hostname port certfile keyfile cafile \<Rightarrow> ''tls''
      | Socket sockpath \<Rightarrow> ''socket''
      | Other t \<Rightarrow> t)"

definition token :: "cmdline \<Rightarrow> string option" where
  "token cl = map_option token_of (command cl)"

text \<open>
  What the outside answers. \<open>read_config path\<close> is the \<open>try\<close> block of lines 99 to 102 up
  to \<open>config.items('Auth')\<close>: the pairs of the section, or the exception that one of its
  calls raised (\<open>config.read\<close> passes over a file it cannot open, and \<open>items\<close> then finds
  no section). \<open>open_infile\<close> is \<open>open\<close> on the positional argument, \<open>isatty\<close> and
  \<open>infile_read\<close> are of \<open>args.infile\<close>, the opened file or the standard input, and
  \<open>infile_read\<close> is its whole content. \<open>basicConfig\<close> is the call of line 164 for a level
  name that \<open>logging\<close> knows. The transport is behind \<open>connect\<close> (the constructor of the
  connection class) and the four methods \<open>main\<close> calls on the object; each is called at
  most once in a run. \<open>print_response\<close> is \<open>print\<close> on what \<open>read\<close> returned.
\<close>

record world =
  read_config :: "string \<Rightarrow> exn + (string \<times> string) list"
  open_infile :: "string \<Rightarrow> exn option"
  basicConfig :: "string \<Rightarrow> exn option"
  isatty :: bool
  infile_read :: "exn + string"
  input_line :: "exn + string"
  getpass :: "string \<Rightarrow> exn + string"
  connect :: "connection \<Rightarrow> exn option"
  gvm_authenticate :: "string \<Rightarrow> string option \<Rightarrow> exn option"
  gvm_send :: "string \<Rightarrow> exn option"
  gvm_read :: "exn + string"
  print_response :: "string \<Rightarrow> exn option"
  gvm_close :: "exn option"

subsection \<open>Lines 89 to 106: the defaults\<close>

text \<open>Python's truth value of an attribute that is \<open>None\<close> or a string.\<close>

definition truthy :: "string option \<Rightarrow> bool" where
  "truthy v = (case v of None \<Rightarrow> False | Some s \<Rightarrow> s \<noteq> [])"

definition builtin_defaults :: "string \<rightharpoonup> string" where
  "builtin_defaults = [''gmp_username'' \<mapsto> [], ''gmp_password'' \<mapsto> []]"

text \<open>\<open>dict\<close> of a list of pairs: a later pair with the same key wins.\<close>

definition dict :: "(string \<times> string) list \<Rightarrow> (string \<rightharpoonup> string)" where
  "dict items = map_of (rev items)"

definition config_path :: "cmdline \<Rightarrow> string option" where
  "config_path cl =
     (case opt_config cl of
        Absent \<Rightarrow> None
      | Bare \<Rightarrow> Some ''~/.config/gvm-tools.conf''
      | Given p \<Rightarrow> Some p)"

text \<open>
  Lines 97 to 104. The assignment of line 102 replaces the dictionary of line 91 by the
  section's pairs; when the \<open>try\<close> block raises an \<open>Exception\<close> the message is printed and
  the dictionary of line 91 stays.
\<close>

definition load_defaults :: "world \<Rightarrow> string option \<Rightarrow> (string \<rightharpoonup> string) step" where
  "load_defaults w config =
     (case config of
        None \<Rightarrow> ([], Inr builtin_defaults)
      | Some path \<Rightarrow>
          if path = [] then ([], Inr builtin_defaults)
          else
            (case read_config w path of
               Inr items \<Rightarrow> ([], Inr (dict items))
             | Inl e \<Rightarrow>
                 if is_Exception e then ([Print (message e)], Inr builtin_defaults)
                 else ([], Inl (Uncaught e))))"

subsection \<open>Lines 106 to 159: the parsed arguments\<close>

text \<open>
  The namespace that \<open>parse_args\<close> returns. \<open>sub\<close> holds the attributes that the actions
  of the chosen sub-parser set. \<open>parser_defaults\<close> is the dictionary that line 106 passed
  to \<open>set_defaults\<close>: the sub-parser inherits it, and each of its entries becomes an
  attribute of the namespace unless an action of the sub-parser has that name.
  \<open>connection_type\<close> is such a name: line 79 makes the top-level parser store the token
  under it, and the attributes of the sub-parser's namespace are then copied over that.
\<close>

datatype sub_args =
    Ssh_args string port string
  | Tls_args string port "string option" "string option" "string option"
  | Socket_args "string option"

record args =
  connection_type :: string
  timeout :: int
  loglevel :: "string option"
  gmp_username :: "string option"
  gmp_password :: "string option"
  xml :: "string option"
  raw :: bool
  sub :: sub_args
  parser_defaults :: "string \<rightharpoonup> string"

text \<open>
  An option added without \<open>default=\<close> after \<open>set_defaults\<close> (lines 106, 113 and 116 to
  118): the flag's value when the flag is given, else the entry of the dictionary passed
  to \<open>set_defaults\<close>, else \<open>None\<close>.
\<close>

definition option_value :: "(string \<rightharpoonup> string) \<Rightarrow> string \<Rightarrow> string option \<Rightarrow> string option" where
  "option_value defaults dest flag = (case flag of Some v \<Rightarrow> Some v | None \<Rightarrow> defaults dest)"

definition subcommands :: "string list" where
  "subcommands = [''ssh'', ''tls'', ''socket'']"

definition log_name :: "log_choice \<Rightarrow> string" where
  "log_name l =
     (case l of
        DEBUG \<Rightarrow> ''DEBUG''
      | INFO \<Rightarrow> ''INFO''
      | WARNING \<Rightarrow> ''WARNING''
      | ERROR \<Rightarrow> ''ERROR''
      | CRITICAL \<Rightarrow> ''CRITICAL'')"

text \<open>
  The sub-parser that the token selects (line 78: the sub-command is required, and it
  must be one of the names given to \<open>add_parser\<close>). A bare token that is one of the names
  is that sub-command without flags; \<open>None\<close> is the usage error of \<open>argparse\<close>.
\<close>

definition sub_parser :: "command \<Rightarrow> command option" where
  "sub_parser c =
     (case c of
        Other t \<Rightarrow>
          if t = ''ssh'' then Some (Ssh None None None)
          else if t = ''tls'' then Some (Tls None None None None None)
          else if t = ''socket'' then Some (Socket Absent)
          else None
      | _ \<Rightarrow> Some c)"

text \<open>
  Line 121: the positional argument, when it is given, is passed to \<open>open\<close> while the line
  is read. \<open>argparse\<close> turns a \<open>ValueError\<close> of \<open>open\<close> into a usage error; any other
  exception of \<open>open\<close> leaves \<open>main\<close> uncaught.
\<close>

definition open_positional :: "world \<Rightarrow> string option \<Rightarrow> unit step" where
  "open_positional w infile =
     (case infile of
        None \<Rightarrow> ([], Inr ())
      | Some path \<Rightarrow>
          (case open_infile w path of
             None \<Rightarrow> ([Open_infile path], Inr ())
           | Some e \<Rightarrow>
               if exn_class e = ValueError then ([Open_infile path], Inl (Exit 2))
               else ([Open_infile path], Inl (Uncaught e))))"

text \<open>
  The attributes of the sub-parsers of lines 123 to 152. \<open>None\<close> is the usage error for a
  missing \<open>--hostname\<close>, which \<open>argparse\<close> reports when it has read the whole line.
\<close>

definition parse_sub :: "command \<Rightarrow> sub_args option" where
  "parse_sub c =
     (case c of
        Ssh hostname port ssh_user \<Rightarrow>
          (case hostname of
             None \<Rightarrow> None
           | Some h \<Rightarrow>
               Some (Ssh_args h
                      (case port of None \<Rightarrow> Port_int 22 | Some p \<Rightarrow> Port_str p)
                      (case ssh_user of None \<Rightarrow> ''gmp'' | Some u \<Rightarrow> u)))
      | Tls hostname port certfile keyfile cafile \<Rightarrow>
          (case hostname of
             None \<Rightarrow> None
           | Some h \<Rightarrow>
               Some (Tls_args h
                      (case port of None \<Rightarrow> Port_int 9390 | Some p \<Rightarrow> Port_str p)
                      certfile keyfile cafile))
      | Socket sockpath \<Rightarrow>
          Some (Socket_args
                 (case sockpath of
                    Absent \<Rightarrow> Some ''/usr/local/var/run/gvmd.sock''
                  | Bare \<Rightarrow> None
                  | Given p \<Rightarrow> Some p))
      | Other t \<Rightarrow> None)"

text \<open>The namespace, once the line is accepted.\<close>

definition namespace :: "(string \<rightharpoonup> string) \<Rightarrow> cmdline \<Rightarrow> command \<Rightarrow> sub_args \<Rightarrow> args" where
  "namespace defaults cl c s =
     \<lparr>connection_type =
        (case defaults ''connection_type'' of Some v \<Rightarrow> v | None \<Rightarrow> token_of c),
      timeout = (case opt_timeout cl of None \<Rightarrow> 60 | Some n \<Rightarrow> n),
      loglevel =
        (case opt_log cl of
           Given l \<Rightarrow> Some (log_name l)
         | Bare \<Rightarrow> Some ''INFO''
         | Absent \<Rightarrow> defaults ''loglevel''),
      gmp_username = option_value defaults ''gmp_username'' (opt_gmp_username cl),
      gmp_password = option_value defaults ''gmp_password'' (opt_gmp_password cl),
      xml = option_value defaults ''xml'' (opt_xml cl),
      raw = opt_raw cl,
      sub = s,
      parser_defaults = defaults\<rparr>"

text \<open>Line 159.\<close>

definition parse_args :: "world \<Rightarrow> (string \<rightharpoonup> string) \<Rightarrow> cmdline \<Rightarrow> args step" where
  "parse_args w defaults cl =
     (case command cl of
        None \<Rightarrow> ([], Inl (Exit 2))
      | Some given \<Rightarrow>
          (case sub_parser given of
             None \<Rightarrow> ([], Inl (Exit 2))
           | Some c \<Rightarrow>
               and_then (open_positional w (opt_infile cl)) (\<lambda>_.
                 (case parse_sub c of
                    None \<Rightarrow> ([], Inl (Exit 2))
                  | Some s \<Rightarrow> ([], Inr (namespace defaults cl c s))))))"

text \<open>Lines 89 to 159 together: the effective arguments of the run.\<close>

definition effective_args :: "world \<Rightarrow> cmdline \<Rightarrow> args step" where
  "effective_args w cl =
     and_then (load_defaults w (config_path cl)) (\<lambda>defaults. parse_args w defaults cl)"

subsection \<open>Lines 161 to 187: logging, timeout and the request\<close>

text \<open>Line 167: the timeout \<open>-1\<close> becomes \<open>None\<close>, no timeout.\<close>

definition resolve_timeout :: "int \<Rightarrow> int option" where
  "resolve_timeout t = (if t = - 1 then None else Some t)"

text \<open>The names for which \<open>logging.getLevelName\<close> returns a level.\<close>

definition level_names :: "string list" where
  "level_names =
     [''CRITICAL'', ''FATAL'', ''ERROR'', ''WARN'', ''WARNING'', ''INFO'', ''DEBUG'', ''NOTSET'']"

text \<open>
  Lines 162 to 164. \<open>args.loglevel\<close> is a choice of \<open>--log\<close> or, unchecked, the \<open>loglevel\<close>
  entry of the configuration section. \<open>basicConfig\<close> opens the log file first, which can
  raise; for a name that is no level it then raises \<open>ValueError\<close> (the message is given
  here without its quotes). No handler is around line 164.
\<close>

definition set_logging :: "world \<Rightarrow> args \<Rightarrow> unit step" where
  "set_logging w a =
     (case loglevel a of
        None \<Rightarrow> ([], Inr ())
      | Some l \<Rightarrow>
          (case basicConfig w l of
             Some e \<Rightarrow> ([Logging l], Inl (Uncaught e))
           | None \<Rightarrow>
               if l \<in> set level_names then ([Logging l], Inr ())
               else ([Logging l], Inl (Uncaught (Exn ValueError (''Unknown level: Level '' @ l))))))"

text \<open>
  Lines 170 to 180. The flag's value when \<open>args.xml\<close> is not \<open>None\<close>; else the whole
  input stream when it is not a terminal, where \<open>EOFError\<close> and \<open>BlockingIOError\<close> are
  printed and leave the empty string; else the empty string.
\<close>

definition read_request :: "world \<Rightarrow> args \<Rightarrow> string step" where
  "read_request w a =
     (case xml a of
        Some x \<Rightarrow> ([], Inr x)
      | None \<Rightarrow>
          if \<not> isatty w then
            (case infile_read w of
               Inr s \<Rightarrow> ([Infile_read], Inr s)
             | Inl e \<Rightarrow>
                 if exn_class e = EOFError \<or> exn_class e = BlockingIOError
                 then ([Infile_read, Print (message e)], Inr [])
                 else ([Infile_read], Inl (Uncaught e)))
          else ([], Inr []))"

text \<open>Lines 183 and 184: one call of \<open>input()\<close> when the request is empty.\<close>

definition ask_request :: "world \<Rightarrow> string \<Rightarrow> string step" where
  "ask_request w x = (if length x = 0 then call_value Input (input_line w) else ([], Inr x))"

definition acquire_xml :: "world \<Rightarrow> args \<Rightarrow> string step" where
  "acquire_xml w a = and_then (read_request w a) (ask_request w)"

text \<open>Line 187: \<open>xml.replace('\n', '').replace('\r', '')\<close>.\<close>

definition remove_char :: "char \<Rightarrow> string \<Rightarrow> string" where
  "remove_char c s = filter (\<lambda>x. x \<noteq> c) s"

definition strip_newlines :: "string \<Rightarrow> string" where
  "strip_newlines s = remove_char (CHR 0x0D) (remove_char (CHR 0x0A) s)"

subsection \<open>Lines 190 to 192: the password\<close>

definition ask_password :: "world \<Rightarrow> args \<Rightarrow> string option step" where
  "ask_password w a =
     (case gmp_username a of
        None \<Rightarrow> ([], Inr (gmp_password a))
      | Some u \<Rightarrow>
          if u \<noteq> [] \<and> \<not> truthy (gmp_password a) then
            (case getpass w (''Enter password for '' @ u @ '': '') of
               Inr p \<Rightarrow> ([Getpass (''Enter password for '' @ u @ '': '')], Inr (Some p))
             | Inl e \<Rightarrow> ([Getpass (''Enter password for '' @ u @ '': '')], Inl (Uncaught e)))
          else ([], Inr (gmp_password a)))"

subsection \<open>Lines 195 to 212: the connection\<close>

text \<open>Python's \<open>sub in s\<close> on strings.\<close>

fun startswith :: "string \<Rightarrow> string \<Rightarrow> bool" where
  "startswith [] s = True"
| "startswith (c # cs) [] = False"
| "startswith (c # cs) (d # ds) = (c = d \<and> startswith cs ds)"

fun contains :: "string \<Rightarrow> string \<Rightarrow> bool" where
  "contains needle [] = (needle = [])"
| "contains needle (c # s) = (startswith needle (c # s) \<or> contains needle s)"

text \<open>\<open>AttributeError\<close>; the message is given here without its quotes.\<close>

definition attribute_error :: "string \<Rightarrow> exn" where
  "attribute_error name =
     Exn Other_Exception (''Namespace object has no attribute '' @ name)"

text \<open>
  Reading an attribute of the namespace: the value that the action of the chosen
  sub-parser set, else the entry of \<open>parser_defaults\<close> under that name, which is a string,
  else \<open>AttributeError\<close>.
\<close>

definition attr_sockpath :: "args \<Rightarrow> exn + string option" where
  "attr_sockpath a =
     (case sub a of
        Socket_args sockpath \<Rightarrow> Inr sockpath
      | _ \<Rightarrow>
          (case parser_defaults a ''sockpath'' of
             Some v \<Rightarrow> Inr (Some v)
           | None \<Rightarrow> Inl (attribute_error ''sockpath'')))"

definition attr_hostname :: "args \<Rightarrow> exn + string" where
  "attr_hostname a =
     (case sub a of
        Ssh_args hostname port ssh_user \<Rightarrow> Inr hostname
      | Tls_args hostname port certfile keyfile cafile \<Rightarrow> Inr hostname
      | Socket_args sockpath \<Rightarrow>
          (case parser_defaults a ''hostname'' of
             Some v \<Rightarrow> Inr v
           | None \<Rightarrow> Inl (attribute_error ''hostname'')))"

definition attr_port :: "args \<Rightarrow> exn + port" where
  "attr_port a =
     (case sub a of
        Ssh_args hostname port ssh_user \<Rightarrow> Inr port
      | Tls_args hostname port certfile keyfile cafile \<Rightarrow> Inr port
      | Socket_args sockpath \<Rightarrow>
          (case parser_defaults a ''port'' of
             Some v \<Rightarrow> Inr (Port_str v)
           | None \<Rightarrow> Inl (attribute_error ''port'')))"

definition attr_certfile :: "args \<Rightarrow> exn + string option" where
  "attr_certfile a =
     (case sub a of
        Tls_args hostname port certfile keyfile cafile \<Rightarrow> Inr certfile
      | _ \<Rightarrow>
          (case parser_defaults a ''certfile'' of
             Some v \<Rightarrow> Inr (Some v)
           | None \<Rightarrow> Inl (attribute_error ''certfile'')))"

definition attr_keyfile :: "args \<Rightarrow> exn + string option" where
  "attr_keyfile a =
     (case sub a of
        Tls_args hostname port certfile keyfile cafile \<Rightarrow> Inr keyfile
      | _ \<Rightarrow>
          (case parser_defaults a ''keyfile'' of
             Some v \<Rightarrow> Inr (Some v)
           | None \<Rightarrow> Inl (attribute_error ''keyfile'')))"

definition attr_cafile :: "args \<Rightarrow> exn + string option" where
  "attr_cafile a =
     (case sub a of
        Tls_args hostname port certfile keyfile cafile \<Rightarrow> Inr cafile
      | _ \<Rightarrow>
          (case parser_defaults a ''cafile'' of
             Some v \<Rightarrow> Inr (Some v)
           | None \<Rightarrow> Inl (attribute_error ''cafile'')))"

definition attr_ssh_user :: "args \<Rightarrow> exn + string" where
  "attr_ssh_user a =
     (case sub a of
        Ssh_args hostname port ssh_user \<Rightarrow> Inr ssh_user
      | _ \<Rightarrow>
          (case parser_defaults a ''ssh_user'' of
             Some v \<Rightarrow> Inr v
           | None \<Rightarrow> Inl (attribute_error ''ssh_user'')))"

text \<open>The first exception among the arguments of a call, in the order they are written.\<close>

definition with_attr :: "exn + 'a \<Rightarrow> ('a \<Rightarrow> exn + 'b) \<Rightarrow> exn + 'b" where
  "with_attr r f = (case r of Inl e \<Rightarrow> Inl e | Inr v \<Rightarrow> f v)"

text \<open>
  The \<open>if\<close> chain of lines 196 to 209, up to the call of the constructor. It tests
  \<open>args.connection_type\<close> by containment and takes SSH when neither test holds; the
  arguments of the constructor are read in the order of the source, and a missing
  attribute raises inside the \<open>try\<close> block.
\<close>

definition select_connection :: "args \<Rightarrow> exn + connection" where
  "select_connection a =
     (if contains ''socket'' (connection_type a) then
        with_attr (attr_sockpath a) (\<lambda>sockpath.
          Inr (UnixSocketConnection sockpath (raw a) (resolve_timeout (timeout a))))
      else if contains ''tls'' (connection_type a) then
        with_attr (attr_hostname a) (\<lambda>hostname.
        with_attr (attr_port a) (\<lambda>port.
        with_attr (attr_certfile a) (\<lambda>certfile.
        with_attr (attr_keyfile a) (\<lambda>keyfile.
        with_attr (attr_cafile a) (\<lambda>cafile.
          Inr (TLSConnection hostname port certfile keyfile cafile (raw a)
                 (resolve_timeout (timeout a))))))))
      else
        with_attr (attr_hostname a) (\<lambda>hostname.
        with_attr (attr_port a) (\<lambda>port.
        with_attr (attr_ssh_user a) (\<lambda>ssh_user.
          Inr (SSHConnection hostname port (resolve_timeout (timeout a)) (raw a) ssh_user [])))))"

text \<open>
  Lines 195 to 212: an \<open>Exception\<close> of the \<open>try\<close> block is printed and the process
  exits with status 1.
\<close>

definition open_connection :: "world \<Rightarrow> args \<Rightarrow> unit step" where
  "open_connection w a =
     (case select_connection a of
        Inl e \<Rightarrow> ([Print (message e)], Inl (Exit 1))
      | Inr c \<Rightarrow>
          (case connect w c of
             None \<Rightarrow> ([Construct c], Inr ())
           | Some e \<Rightarrow>
               if is_Exception e then ([Construct c, Print (message e)], Inl (Exit 1))
               else ([Construct c], Inl (Uncaught e))))"

subsection \<open>Lines 214 to 223: the session\<close>

definition authenticate_step :: "world \<Rightarrow> args \<Rightarrow> string option \<Rightarrow> unit step" where
  "authenticate_step w a password =
     (case gmp_username a of
        None \<Rightarrow> ([], Inr ())
      | Some u \<Rightarrow>
          if u \<noteq> [] then call (Authenticate u password) (gvm_authenticate w u password)
          else ([], Inr ()))"

text \<open>None of the five calls has a handler around it.\<close>

definition session :: "world \<Rightarrow> args \<Rightarrow> string option \<Rightarrow> string \<Rightarrow> unit step" where
  "session w a password x =
     and_then (authenticate_step w a password) (\<lambda>_.
     and_then (call (Send x) (gvm_send w x)) (\<lambda>_.
     and_then (call_value Read (gvm_read w)) (\<lambda>result.
     and_then (call (Print result) (print_response w result)) (\<lambda>_.
     and_then (call Close (gvm_close w)) (\<lambda>_.
     ([], Inl (Exit 0)))))))"

subsection \<open>\<open>main\<close>\<close>

text \<open>Lines 161 to 223, from the parsed arguments on.\<close>

definition run :: "world \<Rightarrow> args \<Rightarrow> unit step" where
  "run w a =
     and_then (set_logging w a) (\<lambda>_.
     and_then (acquire_xml w a) (\<lambda>x.
     and_then (ask_password w a) (\<lambda>password.
     and_then (open_connection w a) (\<lambda>_.
     session w a password (strip_newlines x)))))"

definition finish :: "unit step \<Rightarrow> event list \<times> outcome" where
  "finish m = (case m of (es, Inl stop) \<Rightarrow> (es, stop) | (es, Inr _) \<Rightarrow> (es, Exit 0))"

definition main :: "world \<Rightarrow> cmdline \<Rightarrow> event list \<times> outcome" where
  "main w cl = finish (and_then (effective_args w cl) (run w))"

definition trace :: "world \<Rightarrow> cmdline \<Rightarrow> event list" where
  "trace w cl = fst (main w cl)"

definition result :: "world \<Rightarrow> cmdline \<Rightarrow> outcome" where
  "result w cl = snd (main w cl)"

subsection \<open>Vocabulary of the properties\<close>

text \<open>The calls on the transport: its construction and the four methods.\<close>

definition transport_event :: "event \<Rightarrow> bool" where
  "transport_event ev =
     (case ev of
        Construct c \<Rightarrow> True
      | Authenticate u p \<Rightarrow> True
      | Send x \<Rightarrow> True
      | Read \<Rightarrow> True
      | Close \<Rightarrow> True
      | _ \<Rightarrow> False)"

text \<open>The three calls on the transport between construction and close.\<close>

definition session_call :: "event \<Rightarrow> bool" where
  "session_call ev =
     (case ev of Authenticate u p \<Rightarrow> True | Send x \<Rightarrow> True | Read \<Rightarrow> True | _ \<Rightarrow> False)"

text \<open>The exception that a call on the transport raises in a world, if any.\<close>

definition raised_by :: "world \<Rightarrow> event \<Rightarrow> exn option" where
  "raised_by w ev =
     (case ev of
        Construct c \<Rightarrow> connect w c
      | Authenticate u p \<Rightarrow> gvm_authenticate w u p
      | Send x \<Rightarrow> gvm_send w x
      | Read \<Rightarrow> (case gvm_read w of Inl e \<Rightarrow> Some e | Inr r \<Rightarrow> None)
      | Close \<Rightarrow> gvm_close w
      | _ \<Rightarrow> None)"

text \<open>The sub-command that a connection class belongs to.\<close>

definition variant :: "connection \<Rightarrow> string" where
  "variant c =
     (case c of
        UnixSocketConnection sockpath r t \<Rightarrow> ''socket''
      | TLSConnection h p certfile keyfile cafile r t \<Rightarrow> ''tls''
      | SSHConnection h p t r u pw \<Rightarrow> ''ssh'')"

text \<open>
  The configuration layer of a run: the \<open>Auth\<close> section as a dictionary when a path was
  given and the section was read, nothing otherwise.
\<close>

definition config_section :: "world \<Rightarrow> cmdline \<Rightarrow> (string \<rightharpoonup> string) option" where
  "config_section w cl =
     (case config_path cl of
        None \<Rightarrow> None
      | Some path \<Rightarrow>
          if path = [] then None
          else (case read_config w path of Inr items \<Rightarrow> Some (dict items) | Inl e \<Rightarrow> None))"

subsection \<open>Concrete runs\<close>

text \<open>A command line that names a sub-command and nothing else.\<close>

definition plain_cmdline :: "string \<Rightarrow> cmdline" where
  "plain_cmdline t =
     \<lparr>opt_config = Absent, command = Some (Other t), opt_timeout = None, opt_log = Absent,
      opt_gmp_username = None, opt_gmp_password = None, opt_xml = None, opt_raw = False,
      opt_infile = None\<rparr>"

text \<open>
  A world in which nothing fails but the configuration file, which has no \<open>Auth\<close>
  section: the input is a terminal, the user types a request and a password when asked.
\<close>

definition calm_world :: world where
  "calm_world =
     \<lparr>read_config = (\<lambda>path. Inl (Exn Other_Exception ''No section: Auth'')),
      open_infile = (\<lambda>path. None),
      basicConfig = (\<lambda>level. None),
      isatty = True,
      infile_read = Inr [],
      input_line = Inr ''<get_version/>'',
      getpass = (\<lambda>prompt. Inr ''secret''),
      connect = (\<lambda>c. None),
      gvm_authenticate = (\<lambda>u p. None),
      gvm_send = (\<lambda>x. None),
      gvm_read = Inr ''<get_version_response status=200/>'',
      print_response = (\<lambda>r. None),
      gvm_close = None\<rparr>"

text \<open>
  A TLS session to a named host, with a user name and no password, and the request given
  by flag.
\<close>

definition tls_cmdline :: cmdline where
  "tls_cmdline =
     (plain_cmdline ''tls'')\<lparr>command := Some (Tls (Some ''gvm.example'') None None None None),
        opt_gmp_username := Some ''admin'', opt_xml := Some ''<get_tasks/>''\<rparr>"

text \<open>The request \<open><get_tasks/>\<close> is piped in.\<close>

definition piped_world :: world where
  "piped_world = calm_world\<lparr>isatty := False, infile_read := Inr ''<get_tasks/>''\<rparr>"

text \<open>
  A configuration file whose \<open>Auth\<close> section has a user name and no password, and a
  command line that loads it from the default path.
\<close>

definition config_world :: world where
  "config_world = calm_world\<lparr>read_config := (\<lambda>path. Inr [(''gmp_username'', ''admin'')])\<rparr>"

definition config_cmdline :: cmdline where
  "config_cmdline = (plain_cmdline ''socket'')\<lparr>opt_config := Bare, opt_xml := Some ''<get_tasks/>''\<rparr>"

section \<open>Properties\<close>

subsection \<open>Steps and their traces\<close>

lemmas step_defs = and_then_def call_def call_value_def finish_def

lemmas attr_defs =
  attr_sockpath_def attr_hostname_def attr_port_def attr_certfile_def attr_keyfile_def
  attr_cafile_def attr_ssh_user_def with_attr_def attribute_error_def

lemmas model_defs =
  main_def trace_def result_def effective_args_def load_defaults_def config_path_def
  parse_args_def parse_sub_def sub_parser_def open_positional_def namespace_def token_def
  token_of_def log_name_def subcommands_def option_value_def
  builtin_defaults_def dict_def truthy_def is_Exception_def
  run_def set_logging_def level_names_def acquire_xml_def read_request_def ask_request_def
  strip_newlines_def remove_char_def ask_password_def open_connection_def
  select_connection_def resolve_timeout_def attr_defs
  session_def authenticate_step_def step_defs

lemmas example_defs = calm_world_def plain_cmdline_def tls_cmdline_def

lemma fst_and_then:
  "fst (and_then m f) = fst m @ (case snd m of Inl s \<Rightarrow> [] | Inr x \<Rightarrow> fst (f x))"
  by (cases m) (auto simp: and_then_def split: sum.splits prod.splits)

lemma snd_and_then:
  "snd (and_then m f) = (case snd m of Inl s \<Rightarrow> Inl s | Inr x \<Rightarrow> snd (f x))"
  by (cases m) (auto simp: and_then_def split: sum.splits prod.splits)

lemma in_and_then:
  "e \<in> set (fst (and_then m f)) \<longleftrightarrow>
     e \<in> set (fst m) \<or> (\<exists>x. snd m = Inr x \<and> e \<in> set (fst (f x)))"
  by (auto simp: fst_and_then split: sum.splits)

lemma fst_finish: "fst (finish m) = fst m"
  by (cases m) (auto simp: finish_def split: sum.splits)

lemma snd_finish: "snd (finish m) = (case snd m of Inl s \<Rightarrow> s | Inr u \<Rightarrow> Exit 0)"
  by (cases m) (auto simp: finish_def split: sum.splits)

lemma load_defaults_events: "e \<in> set (fst (load_defaults w c)) \<Longrightarrow> \<not> transport_event e"
  by (auto simp: load_defaults_def transport_event_def split: option.splits sum.splits if_splits)

lemma open_positional_events:
  "e \<in> set (fst (open_positional w p)) \<Longrightarrow> \<exists>path. e = Open_infile path"
  by (auto simp: open_positional_def split: option.splits if_splits)

lemma parse_args_events:
  "e \<in> set (fst (parse_args w d cl)) \<Longrightarrow> \<exists>path. e = Open_infile path"
  by (auto simp: parse_args_def in_and_then dest: open_positional_events
      split: option.splits)

lemma effective_args_events: "e \<in> set (fst (effective_args w cl)) \<Longrightarrow> \<not> transport_event e"
  by (auto simp: effective_args_def in_and_then transport_event_def
      dest: load_defaults_events parse_args_events)

lemma set_logging_events: "e \<in> set (fst (set_logging w a)) \<Longrightarrow> \<exists>l. e = Logging l"
  by (auto simp: set_logging_def split: option.splits if_splits)

lemma acquire_xml_events: "e \<in> set (fst (acquire_xml w a)) \<Longrightarrow> \<not> transport_event e"
  by (auto simp: acquire_xml_def read_request_def ask_request_def call_value_def in_and_then
      transport_event_def split: option.splits sum.splits if_splits)

lemma ask_password_events: "e \<in> set (fst (ask_password w a)) \<Longrightarrow> \<not> transport_event e"
  by (auto simp: ask_password_def transport_event_def split: option.splits sum.splits if_splits)

text \<open>
  A call on the transport is in the trace of \<open>run\<close> only when the set-up of logging
  returned and the request and the password were obtained; it is then a call of
  \<open>open_connection\<close> or of the session.
\<close>

lemma in_run:
  "transport_event e \<Longrightarrow>
   e \<in> set (fst (run w a)) \<longleftrightarrow>
     (snd (set_logging w a) = Inr () \<and>
      (\<exists>x password. snd (acquire_xml w a) = Inr x \<and> snd (ask_password w a) = Inr password \<and>
        (e \<in> set (fst (open_connection w a)) \<or>
         snd (open_connection w a) = Inr () \<and>
         e \<in> set (fst (session w a password (strip_newlines x))))))"
  by (auto simp: run_def in_and_then transport_event_def
      dest: set_logging_events acquire_xml_events ask_password_events)

lemma in_trace:
  "transport_event e \<Longrightarrow>
   e \<in> set (trace w cl) \<longleftrightarrow>
     (\<exists>a. snd (effective_args w cl) = Inr a \<and> e \<in> set (fst (run w a)))"
  by (auto simp: trace_def main_def fst_finish in_and_then dest: effective_args_events)

lemma session_Send: "Send x \<in> set (fst (session w a pw y)) \<Longrightarrow> x = y"
  by (auto simp: session_def authenticate_step_def call_def call_value_def in_and_then
      split: option.splits sum.splits if_splits)

lemma open_connection_Send: "Send x \<notin> set (fst (open_connection w a))"
  by (auto simp: open_connection_def split: option.splits sum.splits if_splits)

lemma strip_newlines_filter:
  "strip_newlines s = filter (\<lambda>c. c \<noteq> CHR 0x0A \<and> c \<noteq> CHR 0x0D) s"
  by (auto simp: strip_newlines_def remove_char_def intro: filter_cong)

text \<open>What is sent is the acquired request, stripped.\<close>

lemma sent_is_stripped_request:
  assumes "Send x \<in> set (trace w cl)"
  shows "\<exists>a p. snd (effective_args w cl) = Inr a \<and> snd (set_logging w a) = Inr () \<and>
           snd (acquire_xml w a) = Inr p \<and> x = strip_newlines p"
proof -
  have t: "transport_event (Send x)" by (simp add: transport_event_def)
  with assms obtain a where a: "snd (effective_args w cl) = Inr a"
    and r: "Send x \<in> set (fst (run w a))"
    by (auto simp: in_trace)
  from r t obtain p pw where l: "snd (set_logging w a) = Inr ()"
    and p: "snd (acquire_xml w a) = Inr p"
    and s: "Send x \<in> set (fst (session w a pw (strip_newlines p)))"
    by (auto simp: in_run open_connection_Send)
  from s have "x = strip_newlines p" by (rule session_Send)
  with a l p show ?thesis by blast
qed

subsection \<open>The request that is sent\<close>

text \<open>
  C6. Whatever is passed to \<open>send\<close> is the acquired request with every newline and every
  carriage return taken out, and nothing else changed; so it holds neither character. The
  acquired request is the result of \<open>acquire_xml\<close>, whichever of the flag, the input
  stream and the prompt it came from.
\<close>

theorem sent_payload_has_no_newlines:
  assumes "Send x \<in> set (trace w cl)"
  shows "(\<exists>a p. snd (effective_args w cl) = Inr a \<and> snd (acquire_xml w a) = Inr p \<and>
            x = filter (\<lambda>c. c \<noteq> CHR 0x0A \<and> c \<noteq> CHR 0x0D) p) \<and>
         CHR 0x0A \<notin> set x \<and> CHR 0x0D \<notin> set x"
proof -
  from sent_is_stripped_request [OF assms] obtain a p
    where a: "snd (effective_args w cl) = Inr a" and p: "snd (acquire_xml w a) = Inr p"
      and x: "x = strip_newlines p"
    by blast
  from x have "x = filter (\<lambda>c. c \<noteq> CHR 0x0A \<and> c \<noteq> CHR 0x0D) p"
    by (simp add: strip_newlines_filter)
  with a p show ?thesis by auto
qed

text \<open>
  The request \<open><get_tasks/>\<close> followed by a newline is piped in; \<open><get_tasks/>\<close> is sent.
\<close>

theorem sent_payload_has_no_newlines_witness:
  "Send ''<get_tasks/>''
     \<in> set (trace (calm_world\<lparr>isatty := False, infile_read := Inr (''<get_tasks/>'' @ [CHR 0x0A])\<rparr>)
              (plain_cmdline ''socket''))
   \<and> CHR 0x0A \<notin> set ''<get_tasks/>'' \<and> CHR 0x0D \<notin> set ''<get_tasks/>''"
proof -
  have h: "Send ''<get_tasks/>''
     \<in> set (trace (calm_world\<lparr>isatty := False, infile_read := Inr (''<get_tasks/>'' @ [CHR 0x0A])\<rparr>)
              (plain_cmdline ''socket''))"
    by (simp add: model_defs example_defs)
  from sent_payload_has_no_newlines [OF h] h show ?thesis by blast
qed

subsection \<open>The parsed arguments\<close>

lemma sub_parser_token: "sub_parser given = Some c \<Longrightarrow> token_of c = token_of given"
  by (auto simp: sub_parser_def token_of_def split: command.splits if_splits)

lemma sub_parser_registered:
  "sub_parser given = Some c \<Longrightarrow> token_of given \<in> set subcommands"
  by (auto simp: sub_parser_def token_of_def subcommands_def split: command.splits if_splits)

lemma sub_parser_rejects:
  "token_of given \<notin> set subcommands \<Longrightarrow> sub_parser given = None"
  by (auto simp: sub_parser_def token_of_def subcommands_def split: command.splits if_splits)

lemma parse_args_fields:
  assumes "snd (parse_args w d cl) = Inr a"
  shows "\<exists>given c s. command cl = Some given \<and> sub_parser given = Some c \<and>
           parse_sub c = Some s \<and> a = namespace d cl c s"
  using assms
  by (auto simp: parse_args_def snd_and_then split: option.splits sum.splits)

lemma namespace_fields:
  "gmp_username (namespace d cl c s) = option_value d ''gmp_username'' (opt_gmp_username cl)"
  "gmp_password (namespace d cl c s) = option_value d ''gmp_password'' (opt_gmp_password cl)"
  "xml (namespace d cl c s) = option_value d ''xml'' (opt_xml cl)"
  "connection_type (namespace d cl c s) =
     (case d ''connection_type'' of Some v \<Rightarrow> v | None \<Rightarrow> token_of c)"
  "sub (namespace d cl c s) = s"
  "parser_defaults (namespace d cl c s) = d"
  by (simp_all add: namespace_def)

lemma effective_args_parse:
  "snd (effective_args w cl) = Inr a \<Longrightarrow> \<exists>d. snd (parse_args w d cl) = Inr a"
  by (auto simp: effective_args_def snd_and_then split: sum.splits)

lemma parse_args_stop:
  "snd (parse_args w d cl) = Inl s \<Longrightarrow> s = Exit 2 \<or> (\<exists>e. s = Uncaught e)"
  by (auto simp: parse_args_def snd_and_then open_positional_def
      split: sum.splits option.splits if_splits)

lemma effective_args_stop:
  "snd (effective_args w cl) = Inl s \<Longrightarrow> s = Exit 2 \<or> (\<exists>e. s = Uncaught e)"
  by (auto simp: effective_args_def snd_and_then load_defaults_def
      dest: parse_args_stop split: sum.splits option.splits if_splits)

lemma effective_defaults:
  assumes "snd (effective_args w cl) = Inr a"
  shows "snd (parse_args w (case config_section w cl of Some sec \<Rightarrow> sec | None \<Rightarrow> builtin_defaults)
           cl) = Inr a"
  using assms
  by (auto simp: effective_args_def snd_and_then load_defaults_def config_section_def
      split: sum.splits option.splits if_splits)

text \<open>
  The class that the \<open>if\<close> chain constructs follows from \<open>args.connection_type\<close> alone.
\<close>

lemma select_connection_variant:
  assumes "select_connection a = Inr c"
  shows "variant c =
           (if contains ''socket'' (connection_type a) then ''socket''
            else if contains ''tls'' (connection_type a) then ''tls'' else ''ssh'')"
  using assms
  by (auto simp: select_connection_def with_attr_def variant_def split: if_splits sum.splits)

text \<open>
  When \<open>connection_type\<close> is the token, the attributes that the chain reads are those of
  the chosen sub-parser, and the class is that of the sub-command.
\<close>

lemma select_connection_of_token:
  assumes "parse_sub c = Some s" and "d ''connection_type'' = None"
  shows "\<exists>conn. select_connection (namespace d cl c s) = Inr conn \<and> variant conn = token_of c"
proof (cases c)
  case (Ssh hostname port ssh_user)
  with assms obtain h p u where "s = Ssh_args h p u"
    by (auto simp: parse_sub_def split: option.splits)
  with Ssh assms(2) show ?thesis
    by (simp add: select_connection_def namespace_def token_of_def attr_defs variant_def)
next
  case (Tls hostname port certfile keyfile cafile)
  with assms obtain h p where "s = Tls_args h p certfile keyfile cafile"
    by (auto simp: parse_sub_def split: option.splits)
  with Tls assms(2) show ?thesis
    by (simp add: select_connection_def namespace_def token_of_def attr_defs variant_def)
next
  case (Socket sockpath)
  with assms obtain sp where "s = Socket_args sp"
    by (auto simp: parse_sub_def)
  with Socket assms(2) show ?thesis
    by (simp add: select_connection_def namespace_def token_of_def attr_defs variant_def)
next
  case (Other t)
  with assms show ?thesis by (simp add: parse_sub_def)
qed

subsection \<open>How a run ends, and the events up to the connection\<close>

lemma result_run:
  "snd (effective_args w cl) = Inr a \<Longrightarrow>
   result w cl = (case snd (run w a) of Inl s \<Rightarrow> s | Inr u \<Rightarrow> Exit 0)"
  by (simp add: result_def main_def snd_finish snd_and_then)

lemma result_no_args:
  "snd (effective_args w cl) = Inl s \<Longrightarrow> result w cl = s"
  by (simp add: result_def main_def snd_finish snd_and_then)

lemma snd_run:
  "snd (run w a) =
     (case snd (set_logging w a) of
        Inl s \<Rightarrow> Inl s
      | Inr u \<Rightarrow>
     (case snd (acquire_xml w a) of
        Inl s \<Rightarrow> Inl s
      | Inr x \<Rightarrow>
          (case snd (ask_password w a) of
             Inl s \<Rightarrow> Inl s
           | Inr password \<Rightarrow>
               (case snd (open_connection w a) of
                  Inl s \<Rightarrow> Inl s
                | Inr u \<Rightarrow> snd (session w a password (strip_newlines x))))))"
  by (auto simp: run_def snd_and_then split: sum.splits)

lemma set_logging_stop: "snd (set_logging w a) = Inl s \<Longrightarrow> \<exists>e. s = Uncaught e"
  by (auto simp: set_logging_def split: option.splits if_splits)

lemma acquire_xml_stop: "snd (acquire_xml w a) = Inl s \<Longrightarrow> \<exists>e. s = Uncaught e"
  by (auto simp: acquire_xml_def read_request_def ask_request_def call_value_def snd_and_then
      split: sum.splits option.splits if_splits)

lemma ask_password_stop: "snd (ask_password w a) = Inl s \<Longrightarrow> \<exists>e. s = Uncaught e"
  by (auto simp: ask_password_def split: sum.splits option.splits if_splits)

lemma session_stop: "\<exists>s. snd (session w a pw x) = Inl s \<and> (s = Exit 0 \<or> (\<exists>e. s = Uncaught e))"
  by (auto simp: session_def authenticate_step_def call_def call_value_def snd_and_then
      split: sum.splits option.splits if_splits)

lemma open_connection_cases:
  "open_connection w a = (es, r) \<Longrightarrow>
     (\<exists>e. select_connection a = Inl e \<and> es = [Print (message e)] \<and> r = Inl (Exit 1)) \<or>
     (\<exists>c. select_connection a = Inr c \<and>
        (connect w c = None \<and> es = [Construct c] \<and> r = Inr () \<or>
         (\<exists>e. connect w c = Some e \<and> is_Exception e \<and>
              es = [Construct c, Print (message e)] \<and> r = Inl (Exit 1)) \<or>
         (\<exists>e. connect w c = Some e \<and> \<not> is_Exception e \<and>
              es = [Construct c] \<and> r = Inl (Uncaught e))))"
  by (auto simp: open_connection_def split: sum.splits option.splits if_splits)

lemma open_connection_ok:
  "select_connection a = Inr c \<Longrightarrow> connect w c = None \<Longrightarrow>
     open_connection w a = ([Construct c], Inr ())"
  by (simp add: open_connection_def)

lemma open_connection_failed:
  "select_connection a = Inr c \<Longrightarrow> connect w c = Some e \<Longrightarrow> is_Exception e \<Longrightarrow>
     open_connection w a = ([Construct c, Print (message e)], Inl (Exit 1))"
  by (simp add: open_connection_def)

lemma trace_eq:
  assumes a: "snd (effective_args w cl) = Inr a" and l: "snd (set_logging w a) = Inr ()"
    and x: "snd (acquire_xml w a) = Inr x" and pw: "snd (ask_password w a) = Inr pw"
  shows "trace w cl =
           fst (effective_args w cl) @ fst (set_logging w a) @ fst (acquire_xml w a) @
           fst (ask_password w a) @ fst (open_connection w a) @
           (case snd (open_connection w a) of
              Inl s \<Rightarrow> []
            | Inr u \<Rightarrow> fst (session w a pw (strip_newlines x)))"
  using a l x pw
  by (simp add: trace_def main_def fst_finish run_def fst_and_then)

lemma trace_to_connection:
  assumes a: "snd (effective_args w cl) = Inr a" and l: "snd (set_logging w a) = Inr ()"
    and x: "snd (acquire_xml w a) = Inr x" and pw: "snd (ask_password w a) = Inr pw"
  shows "\<exists>pre. (\<forall>ev\<in>set pre. \<not> transport_event ev) \<and>
           trace w cl = pre @ fst (open_connection w a) @
             (case snd (open_connection w a) of
                Inl s \<Rightarrow> []
              | Inr u \<Rightarrow> fst (session w a pw (strip_newlines x)))"
proof -
  let ?pre = "fst (effective_args w cl) @ fst (set_logging w a) @ fst (acquire_xml w a) @
              fst (ask_password w a)"
  have "\<forall>ev\<in>set ?pre. \<not> transport_event ev"
    using effective_args_events acquire_xml_events ask_password_events
    by (auto simp: transport_event_def dest!: set_logging_events)
  moreover have "trace w cl = ?pre @ fst (open_connection w a) @
             (case snd (open_connection w a) of
                Inl s \<Rightarrow> []
              | Inr u \<Rightarrow> fst (session w a pw (strip_newlines x)))"
    using trace_eq [OF a l x pw] by simp
  ultimately show ?thesis by blast
qed

text \<open>The shape of a run that reached the construction of the transport.\<close>

lemma construct_in_trace:
  assumes "Construct c \<in> set (trace w cl)"
  shows "\<exists>a x pw. snd (effective_args w cl) = Inr a \<and> snd (set_logging w a) = Inr () \<and>
           snd (acquire_xml w a) = Inr x \<and>
           snd (ask_password w a) = Inr pw \<and> select_connection a = Inr c"
proof -
  have t: "transport_event (Construct c)" by (simp add: transport_event_def)
  with assms obtain a where a: "snd (effective_args w cl) = Inr a"
    and r: "Construct c \<in> set (fst (run w a))"
    by (auto simp: in_trace)
  have no: "Construct c \<notin> set (fst (session w a pw y))" for pw y
    by (auto simp: session_def authenticate_step_def call_def call_value_def in_and_then
        split: option.splits sum.splits if_splits)
  from r t no obtain x pw where l: "snd (set_logging w a) = Inr ()"
    and x: "snd (acquire_xml w a) = Inr x"
    and pw: "snd (ask_password w a) = Inr pw"
    and o: "Construct c \<in> set (fst (open_connection w a))"
    by (auto simp: in_run)
  from o have "select_connection a = Inr c"
    by (auto simp: open_connection_def split: sum.splits option.splits if_splits)
  with a l x pw show ?thesis by blast
qed

lemma in_trace_session:
  assumes a: "snd (effective_args w cl) = Inr a" and l: "snd (set_logging w a) = Inr ()"
    and x: "snd (acquire_xml w a) = Inr x" and pw: "snd (ask_password w a) = Inr pw"
    and o: "open_connection w a = ([Construct c], Inr ())"
    and ev: "session_call ev \<or> ev = Close"
  shows "ev \<in> set (trace w cl) \<longleftrightarrow> ev \<in> set (fst (session w a pw (strip_newlines x)))"
proof -
  from ev have t: "transport_event ev" and n: "ev \<noteq> Construct c"
    by (auto simp: session_call_def transport_event_def split: event.splits)
  from t a have "ev \<in> set (trace w cl) \<longleftrightarrow> ev \<in> set (fst (run w a))"
    by (simp add: in_trace)
  also from t l x pw o n have "\<dots> \<longleftrightarrow> ev \<in> set (fst (session w a pw (strip_newlines x)))"
    by (simp add: in_run)
  finally show ?thesis .
qed

lemma result_session:
  assumes a: "snd (effective_args w cl) = Inr a" and l: "snd (set_logging w a) = Inr ()"
    and x: "snd (acquire_xml w a) = Inr x" and pw: "snd (ask_password w a) = Inr pw"
    and o: "open_connection w a = ([Construct c], Inr ())"
  shows "result w cl =
           (case snd (session w a pw (strip_newlines x)) of Inl s \<Rightarrow> s | Inr u \<Rightarrow> Exit 0)"
  using assms by (simp add: result_run snd_run)

subsection \<open>The session: authenticate, send, read, print, close\<close>

lemma session_close:
  "Close \<in> set (fst (session w a pw x)) \<longleftrightarrow>
     (\<forall>ev\<in>set (fst (session w a pw x)). session_call ev \<longrightarrow> raised_by w ev = None) \<and>
     (\<forall>r. Read \<in> set (fst (session w a pw x)) \<and> gvm_read w = Inr r \<longrightarrow>
          print_response w r = None)"
  by (auto simp: session_def authenticate_step_def call_def call_value_def in_and_then fst_and_then
      session_call_def raised_by_def
      split: option.splits sum.splits if_splits)

lemma session_raise:
  "ev \<in> set (fst (session w a pw x)) \<Longrightarrow> session_call ev \<Longrightarrow> raised_by w ev = Some e \<Longrightarrow>
     snd (session w a pw x) = Inl (Uncaught e)"
  by (auto simp: session_def authenticate_step_def call_def call_value_def in_and_then snd_and_then
      session_call_def raised_by_def
      split: option.splits sum.splits if_splits)

lemma session_print_raise:
  "Read \<in> set (fst (session w a pw x)) \<Longrightarrow> gvm_read w = Inr r \<Longrightarrow>
   print_response w r = Some e \<Longrightarrow> snd (session w a pw x) = Inl (Uncaught e)"
  by (auto simp: session_def authenticate_step_def call_def call_value_def in_and_then snd_and_then
      split: option.splits sum.splits if_splits)

lemma session_Authenticate:
  "Authenticate u p \<in> set (fst (session w a pw x)) \<longleftrightarrow>
     gmp_username a = Some u \<and> u \<noteq> [] \<and> p = pw"
  by (auto simp: session_def authenticate_step_def call_def call_value_def in_and_then
      split: option.splits sum.splits if_splits)

lemma authenticate_in_trace:
  assumes "Authenticate u p \<in> set (trace w cl)" and a: "snd (effective_args w cl) = Inr a"
  shows "\<exists>x pw. snd (set_logging w a) = Inr () \<and> snd (acquire_xml w a) = Inr x \<and>
           snd (ask_password w a) = Inr pw \<and>
           snd (open_connection w a) = Inr () \<and>
           Authenticate u p \<in> set (fst (session w a pw (strip_newlines x)))"
proof -
  have t: "transport_event (Authenticate u p)" by (simp add: transport_event_def)
  have no: "Authenticate u p \<notin> set (fst (open_connection w a))"
    by (auto simp: open_connection_def split: option.splits sum.splits if_splits)
  from assms t have "Authenticate u p \<in> set (fst (run w a))"
    by (auto simp: in_trace)
  with t no show ?thesis by (auto simp: in_run)
qed

lemma ask_password_result:
  assumes "snd (ask_password w a) = Inr pw"
  shows "if truthy (gmp_username a) \<and> \<not> truthy (gmp_password a)
         then \<exists>u s. gmp_username a = Some u \<and>
                getpass w (''Enter password for '' @ u @ '': '') = Inr s \<and> pw = Some s \<and>
                Getpass (''Enter password for '' @ u @ '': '') \<in> set (fst (ask_password w a))
         else pw = gmp_password a"
  using assms
  by (auto simp: ask_password_def truthy_def split: option.splits sum.splits if_splits)

subsection \<open>Close, and the errors of the session\<close>

text \<open>
  C1, as the code has it. Lines 214 to 221 call \<open>authenticate\<close>, \<open>send\<close>, \<open>read\<close>, \<open>print\<close>
  and \<open>close\<close> one after the other, with no \<open>try\<close> around them. So in a run that
  constructed its transport, \<open>close\<close> is called exactly when none of the calls of
  \<open>authenticate\<close>, \<open>send\<close> and \<open>read\<close> made in that run raised and the print of the response
  returned. When one of the three calls or the print raises, the exception leaves \<open>main\<close>
  uncaught and \<open>close\<close> is not called; the status of the process is then 1 for an
  \<open>Exception\<close>.
\<close>

theorem close_iff_no_call_raised:
  assumes "Construct c \<in> set (trace w cl)" and "connect w c = None"
  shows "(Close \<in> set (trace w cl) \<longleftrightarrow>
            (\<forall>ev\<in>set (trace w cl). session_call ev \<longrightarrow> raised_by w ev = None) \<and>
            (\<forall>r. Read \<in> set (trace w cl) \<and> gvm_read w = Inr r \<longrightarrow> print_response w r = None)) \<and>
         (\<forall>ev\<in>set (trace w cl). \<forall>e. session_call ev \<and> raised_by w ev = Some e \<longrightarrow>
            result w cl = Uncaught e \<and> Close \<notin> set (trace w cl)) \<and>
         (\<forall>r e. Read \<in> set (trace w cl) \<and> gvm_read w = Inr r \<and> print_response w r = Some e \<longrightarrow>
            result w cl = Uncaught e \<and> Close \<notin> set (trace w cl)) \<and>
         (\<forall>e. result w cl = Uncaught e \<and> is_Exception e \<longrightarrow>
            process_status (result w cl) = Some 1)"
proof -
  from construct_in_trace [OF assms(1)] obtain a x pw
    where a: "snd (effective_args w cl) = Inr a" and l: "snd (set_logging w a) = Inr ()"
      and x: "snd (acquire_xml w a) = Inr x"
      and pw: "snd (ask_password w a) = Inr pw" and s: "select_connection a = Inr c"
    by blast
  from s assms(2) have o: "open_connection w a = ([Construct c], Inr ())"
    by (rule open_connection_ok)
  let ?S = "session w a pw (strip_newlines x)"
  have mem: "ev \<in> set (trace w cl) \<longleftrightarrow> ev \<in> set (fst ?S)" if "session_call ev \<or> ev = Close" for ev
    using a l x pw o that by (rule in_trace_session)
  have memR: "Read \<in> set (trace w cl) \<longleftrightarrow> Read \<in> set (fst ?S)"
    by (rule mem) (simp add: session_call_def)
  have memC: "Close \<in> set (trace w cl) \<longleftrightarrow> Close \<in> set (fst ?S)"
    by (rule mem) simp
  have res: "result w cl = (case snd ?S of Inl s \<Rightarrow> s | Inr u \<Rightarrow> Exit 0)"
    using a l x pw o by (rule result_session)
  have 1: "Close \<in> set (trace w cl) \<longleftrightarrow>
            (\<forall>ev\<in>set (trace w cl). session_call ev \<longrightarrow> raised_by w ev = None) \<and>
            (\<forall>r. Read \<in> set (trace w cl) \<and> gvm_read w = Inr r \<longrightarrow> print_response w r = None)"
    unfolding memC memR session_close [of w a pw "strip_newlines x"]
    using mem by blast
  have 2: "result w cl = Uncaught e \<and> Close \<notin> set (trace w cl)"
    if "ev \<in> set (trace w cl)" and "session_call ev" and "raised_by w ev = Some e" for ev e
  proof -
    from that mem have in_s: "ev \<in> set (fst ?S)" by blast
    from session_raise [OF in_s that(2,3)] res have "result w cl = Uncaught e" by simp
    moreover from 1 that have "Close \<notin> set (trace w cl)" by force
    ultimately show ?thesis by simp
  qed
  have 3: "result w cl = Uncaught e \<and> Close \<notin> set (trace w cl)"
    if "Read \<in> set (trace w cl)" and "gvm_read w = Inr r" and "print_response w r = Some e"
    for r e
  proof -
    from that(1) memR have in_s: "Read \<in> set (fst ?S)" by simp
    from session_print_raise [OF in_s that(2,3)] res have "result w cl = Uncaught e" by simp
    moreover from 1 that have "Close \<notin> set (trace w cl)" by force
    ultimately show ?thesis by simp
  qed
  have 4: "process_status (result w cl) = Some 1"
    if "result w cl = Uncaught e" and "is_Exception e" for e
    using that by (simp add: process_status_def)
  from 1 2 3 4 show ?thesis by blast
qed

text \<open>
  A TLS run in which the response cannot be printed: \<open>read\<close> returned, the exception of
  \<open>print\<close> ends the run with status 1, and \<open>close\<close> is not called.
\<close>

theorem close_iff_no_call_raised_witness:
  "Construct (TLSConnection ''gvm.example'' (Port_int 9390) None None None False (Some 60))
     \<in> set (trace (calm_world\<lparr>print_response := (\<lambda>r. Some (Exn ValueError ''codec cannot encode''))\<rparr>)
              tls_cmdline)
   \<and> connect (calm_world\<lparr>print_response := (\<lambda>r. Some (Exn ValueError ''codec cannot encode''))\<rparr>)
        (TLSConnection ''gvm.example'' (Port_int 9390) None None None False (Some 60)) = None
   \<and> Read \<in> set (trace (calm_world\<lparr>print_response := (\<lambda>r. Some (Exn ValueError ''codec cannot encode''))\<rparr>)
              tls_cmdline)
   \<and> result (calm_world\<lparr>print_response := (\<lambda>r. Some (Exn ValueError ''codec cannot encode''))\<rparr>)
        tls_cmdline
        = Uncaught (Exn ValueError ''codec cannot encode'')
   \<and> process_status (result (calm_world\<lparr>print_response := (\<lambda>r. Some (Exn ValueError ''codec cannot encode''))\<rparr>)
        tls_cmdline) = Some 1
   \<and> Close \<notin> set (trace (calm_world\<lparr>print_response := (\<lambda>r. Some (Exn ValueError ''codec cannot encode''))\<rparr>)
              tls_cmdline)"
proof -
  let ?w = "calm_world\<lparr>print_response := (\<lambda>r. Some (Exn ValueError ''codec cannot encode''))\<rparr>"
  let ?c = "TLSConnection ''gvm.example'' (Port_int 9390) None None None False (Some 60)"
  have tr: "trace ?w tls_cmdline =
      [Getpass ''Enter password for admin: '', Construct ?c,
       Authenticate ''admin'' (Some ''secret''), Send ''<get_tasks/>'', Read,
       Print ''<get_version_response status=200/>'']"
    by (simp add: model_defs example_defs)
  have c: "Construct ?c \<in> set (trace ?w tls_cmdline)" by (simp add: tr)
  have n: "connect ?w ?c = None" by (simp add: calm_world_def)
  have r: "Read \<in> set (trace ?w tls_cmdline)" by (simp add: tr)
  have g: "gvm_read ?w = Inr ''<get_version_response status=200/>''"
    and p: "print_response ?w ''<get_version_response status=200/>''
              = Some (Exn ValueError ''codec cannot encode'')"
    by (simp_all add: calm_world_def)
  have e: "is_Exception (Exn ValueError ''codec cannot encode'')"
    by (simp add: is_Exception_def)
  from close_iff_no_call_raised [OF c n] r g p
  have u: "result ?w tls_cmdline = Uncaught (Exn ValueError ''codec cannot encode'') \<and>
        Close \<notin> set (trace ?w tls_cmdline)"
    by blast
  with close_iff_no_call_raised [OF c n] e
  have "process_status (result ?w tls_cmdline) = Some 1"
    by blast
  with u c n r show ?thesis by simp
qed

text \<open>
  C1 as stated fails: the transport is constructed, \<open>send\<close> raises, and the run ends with
  that exception without a call of \<open>close\<close>.
\<close>

theorem close_skipped_counterexample:
  "trace (calm_world\<lparr>gvm_send := (\<lambda>x. Some (Exn Other_Exception ''Broken pipe''))\<rparr>)
         (plain_cmdline ''socket'')
     = [Input,
        Construct (UnixSocketConnection (Some ''/usr/local/var/run/gvmd.sock'') False (Some 60)),
        Send ''<get_version/>'']
   \<and> connect (calm_world\<lparr>gvm_send := (\<lambda>x. Some (Exn Other_Exception ''Broken pipe''))\<rparr>)
         (UnixSocketConnection (Some ''/usr/local/var/run/gvmd.sock'') False (Some 60)) = None
   \<and> Close \<notin> set (trace (calm_world\<lparr>gvm_send := (\<lambda>x. Some (Exn Other_Exception ''Broken pipe''))\<rparr>)
         (plain_cmdline ''socket''))
   \<and> result (calm_world\<lparr>gvm_send := (\<lambda>x. Some (Exn Other_Exception ''Broken pipe''))\<rparr>)
         (plain_cmdline ''socket'') = Uncaught (Exn Other_Exception ''Broken pipe'')"
  by (simp add: model_defs example_defs)

subsection \<open>Exit code 1\<close>

text \<open>
  C3, as the code has it. When the constructor of the connection raises an \<open>Exception\<close>,
  the run ends with \<open>sys.exit(1)\<close>; the trace ends with the call of the constructor
  followed by the print of the error, and no event before them is a call on the
  transport, so \<open>authenticate\<close>, \<open>send\<close>, \<open>read\<close> and \<open>close\<close> are never called. Status 1 is
  not particular to that path. \<open>main\<close> calls \<open>sys.exit(1)\<close> also when reading an argument
  of the constructor raises \<open>AttributeError\<close> in the same \<open>try\<close> block, before any
  constructor is called; and the status of the process is 1 as well whenever an
  \<open>Exception\<close> leaves \<open>main\<close> uncaught.
\<close>

theorem construction_failure_exits_1:
  "(\<forall>c e. Construct c \<in> set (trace w cl) \<and> connect w c = Some e \<and> is_Exception e \<longrightarrow>
      result w cl = Exit 1 \<and>
      (\<exists>pre. trace w cl = pre @ [Construct c, Print (message e)] \<and>
             (\<forall>ev\<in>set pre. \<not> transport_event ev))) \<and>
   (result w cl = Exit 1 \<longrightarrow>
      (\<exists>c e. Construct c \<in> set (trace w cl) \<and> connect w c = Some e \<and> is_Exception e) \<or>
      (\<exists>a e. snd (effective_args w cl) = Inr a \<and> select_connection a = Inl e \<and>
         (\<exists>pre. trace w cl = pre @ [Print (message e)] \<and>
                (\<forall>ev\<in>set pre. \<not> transport_event ev)))) \<and>
   (process_status (result w cl) = Some 1 \<longleftrightarrow>
      result w cl = Exit 1 \<or> (\<exists>e. result w cl = Uncaught e \<and> is_Exception e))"
proof (intro conjI allI impI)
  fix c e
  assume h: "Construct c \<in> set (trace w cl) \<and> connect w c = Some e \<and> is_Exception e"
  from construct_in_trace [of c w cl] h obtain a x pw
    where a: "snd (effective_args w cl) = Inr a" and l: "snd (set_logging w a) = Inr ()"
      and x: "snd (acquire_xml w a) = Inr x"
      and pw: "snd (ask_password w a) = Inr pw" and s: "select_connection a = Inr c"
    by blast
  from s h have o: "open_connection w a = ([Construct c, Print (message e)], Inl (Exit 1))"
    by (simp add: open_connection_failed)
  from a l x pw o show "result w cl = Exit 1"
    by (simp add: result_run snd_run)
  from trace_to_connection [OF a l x pw] o
  show "\<exists>pre. trace w cl = pre @ [Construct c, Print (message e)] \<and>
             (\<forall>ev\<in>set pre. \<not> transport_event ev)"
    by auto
next
  assume r: "result w cl = Exit 1"
  show "(\<exists>c e. Construct c \<in> set (trace w cl) \<and> connect w c = Some e \<and> is_Exception e) \<or>
      (\<exists>a e. snd (effective_args w cl) = Inr a \<and> select_connection a = Inl e \<and>
         (\<exists>pre. trace w cl = pre @ [Print (message e)] \<and>
                (\<forall>ev\<in>set pre. \<not> transport_event ev)))"
  proof (cases "snd (effective_args w cl)")
    case (Inl s)
    with r effective_args_stop [of w cl s] show ?thesis
      by (auto simp: result_no_args)
  next
    case (Inr a)
    from r Inr have run: "snd (run w a) = Inl (Exit 1)"
      using session_stop
      by (auto simp: result_run split: sum.splits)
    from run have l: "snd (set_logging w a) = Inr ()"
      using set_logging_stop [of w a] by (cases "snd (set_logging w a)") (auto simp: snd_run)
    from run l obtain x where x: "snd (acquire_xml w a) = Inr x"
      using acquire_xml_stop [of w a] by (cases "snd (acquire_xml w a)") (auto simp: snd_run)
    from run l x obtain pw where pw: "snd (ask_password w a) = Inr pw"
      using ask_password_stop [of w a] by (cases "snd (ask_password w a)") (auto simp: snd_run)
    from run l x pw have o: "snd (open_connection w a) = Inl (Exit 1)"
      using session_stop [of w a pw "strip_newlines x"]
      by (cases "snd (open_connection w a)") (auto simp: snd_run)
    obtain es rr where oc: "open_connection w a = (es, rr)" by (cases "open_connection w a")
    from open_connection_cases [OF oc] o oc consider
        (attr) e where "select_connection a = Inl e" "es = [Print (message e)]"
      | (conn) c e where "connect w c = Some e" "is_Exception e"
          "es = [Construct c, Print (message e)]"
      by auto
    then show ?thesis
    proof cases
      case attr
      from trace_to_connection [OF Inr l x pw] oc o attr
      have "\<exists>pre. trace w cl = pre @ [Print (message e)] \<and>
                (\<forall>ev\<in>set pre. \<not> transport_event ev)"
        by auto
      with Inr attr show ?thesis by blast
    next
      case conn
      from trace_to_connection [OF Inr l x pw] oc conn have "Construct c \<in> set (trace w cl)"
        by auto
      with conn show ?thesis by blast
    qed
  qed
next
  show "process_status (result w cl) = Some 1 \<longleftrightarrow>
      result w cl = Exit 1 \<or> (\<exists>e. result w cl = Uncaught e \<and> is_Exception e)"
    by (auto simp: process_status_def split: outcome.splits if_splits)
qed

text \<open>A TLS run whose connection is refused.\<close>

theorem construction_failure_exits_1_witness:
  "Construct (TLSConnection ''gvm.example'' (Port_int 9390) None None None False (Some 60))
     \<in> set (trace (calm_world\<lparr>connect := (\<lambda>c. Some (Exn Other_Exception ''Connection refused''))\<rparr>) tls_cmdline)
   \<and> is_Exception (Exn Other_Exception ''Connection refused'')
   \<and> result (calm_world\<lparr>connect := (\<lambda>c. Some (Exn Other_Exception ''Connection refused''))\<rparr>) tls_cmdline = Exit 1
   \<and> (\<exists>pre. trace (calm_world\<lparr>connect := (\<lambda>c. Some (Exn Other_Exception ''Connection refused''))\<rparr>) tls_cmdline
          = pre @ [Construct (TLSConnection ''gvm.example'' (Port_int 9390) None None None False (Some 60)),
                   Print ''Connection refused''])"
proof -
  let ?w = "calm_world\<lparr>connect := (\<lambda>c. Some (Exn Other_Exception ''Connection refused''))\<rparr>"
  let ?c = "TLSConnection ''gvm.example'' (Port_int 9390) None None None False (Some 60)"
  have tr: "trace ?w tls_cmdline =
      [Getpass ''Enter password for admin: '', Construct ?c, Print ''Connection refused'']"
    by (simp add: model_defs example_defs)
  have c: "Construct ?c \<in> set (trace ?w tls_cmdline)" by (simp add: tr)
  have n: "connect ?w ?c = Some (Exn Other_Exception ''Connection refused'')"
    by (simp add: calm_world_def)
  have e: "is_Exception (Exn Other_Exception ''Connection refused'')"
    by (simp add: is_Exception_def)
  from construction_failure_exits_1 [of ?w tls_cmdline] c n e
  have "result ?w tls_cmdline = Exit 1 \<and>
      (\<exists>pre. trace ?w tls_cmdline = pre @ [Construct ?c, Print (message (Exn Other_Exception ''Connection refused''))] \<and>
             (\<forall>ev\<in>set pre. \<not> transport_event ev))"
    by blast
  with c e show ?thesis by auto
qed

text \<open>
  C3 as stated fails in its last part. A run whose transport was constructed and whose
  \<open>send\<close> raises ends with status 1. And with a configuration section that sets
  \<open>connection_type\<close> to \<open>foo\<close>, the sub-command \<open>socket\<close> reaches the SSH branch, where
  \<open>args.hostname\<close> does not exist: the run ends with \<open>sys.exit(1)\<close> and no constructor was
  called.
\<close>

theorem exit_1_elsewhere_counterexample:
  "trace (calm_world\<lparr>gvm_send := (\<lambda>x. Some (Exn Other_Exception ''Broken pipe''))\<rparr>)
         (plain_cmdline ''socket'')
     = [Input,
        Construct (UnixSocketConnection (Some ''/usr/local/var/run/gvmd.sock'') False (Some 60)),
        Send ''<get_version/>'']
   \<and> connect (calm_world\<lparr>gvm_send := (\<lambda>x. Some (Exn Other_Exception ''Broken pipe''))\<rparr>)
         (UnixSocketConnection (Some ''/usr/local/var/run/gvmd.sock'') False (Some 60)) = None
   \<and> process_status (result (calm_world\<lparr>gvm_send := (\<lambda>x. Some (Exn Other_Exception ''Broken pipe''))\<rparr>)
         (plain_cmdline ''socket'')) = Some 1
   \<and> trace (calm_world\<lparr>read_config := (\<lambda>path. Inr [(''connection_type'', ''foo'')])\<rparr>)
         ((plain_cmdline ''socket'')\<lparr>opt_config := Bare, opt_xml := Some ''<get_tasks/>''\<rparr>)
     = [Print ''Namespace object has no attribute hostname'']
   \<and> result (calm_world\<lparr>read_config := (\<lambda>path. Inr [(''connection_type'', ''foo'')])\<rparr>)
         ((plain_cmdline ''socket'')\<lparr>opt_config := Bare, opt_xml := Some ''<get_tasks/>''\<rparr>)
     = Exit 1"
  by (simp add: model_defs example_defs process_status_def)

subsection \<open>Events of a run, stage by stage\<close>

lemma trace_members:
  assumes "ev \<in> set (trace w cl)"
  shows "ev \<in> set (fst (effective_args w cl)) \<or>
         (\<exists>a. snd (effective_args w cl) = Inr a \<and>
            (ev \<in> set (fst (set_logging w a)) \<or> ev \<in> set (fst (acquire_xml w a)) \<or>
             ev \<in> set (fst (ask_password w a)) \<or> ev \<in> set (fst (open_connection w a)) \<or>
             (\<exists>pw x. ev \<in> set (fst (session w a pw x)))))"
  using assms
  by (auto simp: trace_def main_def fst_finish run_def in_and_then)

lemma acquire_in_trace:
  "snd (effective_args w cl) = Inr a \<Longrightarrow> snd (set_logging w a) = Inr () \<Longrightarrow>
   ev \<in> set (fst (acquire_xml w a)) \<Longrightarrow> ev \<in> set (trace w cl)"
  by (auto simp: trace_def main_def fst_finish run_def in_and_then)

lemma no_read_outside_acquire:
  "Infile_read \<notin> set (fst (effective_args w cl))"
  "Infile_read \<notin> set (fst (set_logging w a))"
  "Infile_read \<notin> set (fst (ask_password w a))"
  "Infile_read \<notin> set (fst (open_connection w a))"
  "Infile_read \<notin> set (fst (session w a pw x))"
proof -
  show "Infile_read \<notin> set (fst (effective_args w cl))"
    by (auto simp: effective_args_def load_defaults_def in_and_then
        dest: parse_args_events split: option.splits sum.splits if_splits)
  show "Infile_read \<notin> set (fst (set_logging w a))"
    by (auto dest: set_logging_events)
  show "Infile_read \<notin> set (fst (ask_password w a))"
    by (auto simp: ask_password_def split: option.splits sum.splits if_splits)
  show "Infile_read \<notin> set (fst (open_connection w a))"
    by (auto simp: open_connection_def split: option.splits sum.splits if_splits)
  show "Infile_read \<notin> set (fst (session w a pw x))"
    by (auto simp: session_def authenticate_step_def call_def call_value_def in_and_then
        split: option.splits sum.splits if_splits)
qed

lemma effective_xml:
  assumes "snd (effective_args w cl) = Inr a"
  shows "xml a = (case opt_xml cl of
                    Some v \<Rightarrow> Some v
                  | None \<Rightarrow> (case config_section w cl of Some sec \<Rightarrow> sec ''xml'' | None \<Rightarrow> None))"
proof -
  from parse_args_fields [OF effective_defaults [OF assms]] show ?thesis
    by (auto simp: namespace_fields option_value_def builtin_defaults_def split: option.splits)
qed

subsection \<open>The sub-command and the connection class\<close>

text \<open>
  C9, as the code has it. A command line whose sub-command is none of \<open>ssh\<close>, \<open>tls\<close> and
  \<open>socket\<close> is refused by the parser with status 2 and constructs no transport. The \<open>if\<close>
  chain of lines 196 to 209 does not test that token but \<open>args.connection_type\<close>, which
  is the token unless the loaded configuration section has a \<open>connection_type\<close> entry;
  such an entry takes the token's place unchecked. The chain tests by containment: a
  value that contains \<open>socket\<close> constructs the socket connection, else one that contains
  \<open>tls\<close> constructs the TLS connection, and every other value constructs the SSH
  connection. When no section entry takes the token's place, the chain succeeds and the
  connection that is constructed is that of the sub-command on the line.
\<close>

theorem connection_kind_dispatch:
  "(token cl \<noteq> Some ''ssh'' \<and> token cl \<noteq> Some ''tls'' \<and> token cl \<noteq> Some ''socket'' \<longrightarrow>
      (\<forall>d. parse_args w d cl = ([], Inl (Exit 2))) \<and> (\<forall>c. Construct c \<notin> set (trace w cl))) \<and>
   (\<forall>a. snd (effective_args w cl) = Inr a \<longrightarrow>
      Some (connection_type a) =
        (case config_section w cl of
           None \<Rightarrow> token cl
         | Some sec \<Rightarrow> (case sec ''connection_type'' of Some v \<Rightarrow> Some v | None \<Rightarrow> token cl)) \<and>
      (\<forall>c. Construct c \<in> set (trace w cl) \<longrightarrow>
         variant c =
           (if contains ''socket'' (connection_type a) then ''socket''
            else if contains ''tls'' (connection_type a) then ''tls'' else ''ssh''))) \<and>
   ((\<forall>sec. config_section w cl = Some sec \<longrightarrow> sec ''connection_type'' = None) \<longrightarrow>
      (\<forall>a. snd (effective_args w cl) = Inr a \<longrightarrow>
         (\<exists>c. select_connection a = Inr c \<and> token cl = Some (variant c))) \<and>
      (\<forall>c. Construct c \<in> set (trace w cl) \<longrightarrow> token cl = Some (variant c)))"
proof -
  have rej: "parse_args w d cl = ([], Inl (Exit 2))"
    if t: "token cl \<noteq> Some ''ssh'' \<and> token cl \<noteq> Some ''tls'' \<and> token cl \<noteq> Some ''socket''"
    for d
  proof (cases "command cl")
    case None
    then show ?thesis by (simp add: parse_args_def)
  next
    case (Some given)
    with t have "token_of given \<notin> set subcommands"
      by (auto simp: token_def subcommands_def)
    from sub_parser_rejects [OF this] Some show ?thesis
      by (simp add: parse_args_def)
  qed
  have 1: "(\<forall>d. parse_args w d cl = ([], Inl (Exit 2))) \<and> (\<forall>c. Construct c \<notin> set (trace w cl))"
    if t: "token cl \<noteq> Some ''ssh'' \<and> token cl \<noteq> Some ''tls'' \<and> token cl \<noteq> Some ''socket''"
  proof -
    have "Construct c \<notin> set (trace w cl)" for c
    proof
      assume "Construct c \<in> set (trace w cl)"
      from construct_in_trace [OF this] obtain a where "snd (effective_args w cl) = Inr a"
        by blast
      from effective_args_parse [OF this] rej [OF t] show False by auto
    qed
    with rej [OF t] show ?thesis by blast
  qed
  have fields: "\<exists>given c s. command cl = Some given \<and> sub_parser given = Some c \<and>
           parse_sub c = Some s \<and>
           a = namespace (case config_section w cl of Some sec \<Rightarrow> sec | None \<Rightarrow> builtin_defaults)
                 cl c s"
    if "snd (effective_args w cl) = Inr a" for a
    using parse_args_fields [OF effective_defaults [OF that]] .
  have ct: "Some (connection_type a) =
        (case config_section w cl of
           None \<Rightarrow> token cl
         | Some sec \<Rightarrow> (case sec ''connection_type'' of Some v \<Rightarrow> Some v | None \<Rightarrow> token cl))"
    if a: "snd (effective_args w cl) = Inr a" for a
  proof -
    from fields [OF a] obtain given c s where g: "command cl = Some given"
      and c: "sub_parser given = Some c"
      and n: "a = namespace (case config_section w cl of Some sec \<Rightarrow> sec | None \<Rightarrow> builtin_defaults)
                 cl c s"
      by blast
    from g sub_parser_token [OF c] have "token cl = Some (token_of c)"
      by (simp add: token_def)
    with n show ?thesis
      by (auto simp: namespace_fields builtin_defaults_def split: option.splits)
  qed
  have 2: "variant c =
           (if contains ''socket'' (connection_type a) then ''socket''
            else if contains ''tls'' (connection_type a) then ''tls'' else ''ssh'')"
    if a: "snd (effective_args w cl) = Inr a" and c: "Construct c \<in> set (trace w cl)" for a c
  proof -
    from construct_in_trace [OF c] a have "select_connection a = Inr c" by auto
    then show ?thesis by (rule select_connection_variant)
  qed
  have sel: "\<exists>c. select_connection a = Inr c \<and> token cl = Some (variant c)"
    if none: "\<forall>sec. config_section w cl = Some sec \<longrightarrow> sec ''connection_type'' = None"
      and a: "snd (effective_args w cl) = Inr a" for a
  proof -
    let ?d = "case config_section w cl of Some sec \<Rightarrow> sec | None \<Rightarrow> builtin_defaults"
    from fields [OF a] obtain given c s where g: "command cl = Some given"
      and c: "sub_parser given = Some c" and s: "parse_sub c = Some s"
      and n: "a = namespace ?d cl c s"
      by blast
    from none have d: "?d ''connection_type'' = None"
      by (auto simp: builtin_defaults_def split: option.splits)
    from g sub_parser_token [OF c] have t: "token cl = Some (token_of c)"
      by (simp add: token_def)
    from select_connection_of_token [of c s ?d cl] s d n t show ?thesis by auto
  qed
  have 3: "token cl = Some (variant c)"
    if none: "\<forall>sec. config_section w cl = Some sec \<longrightarrow> sec ''connection_type'' = None"
      and c: "Construct c \<in> set (trace w cl)" for c
  proof -
    from construct_in_trace [OF c] obtain a where a: "snd (effective_args w cl) = Inr a"
      and s: "select_connection a = Inr c"
      by blast
    from sel [OF none a] s show ?thesis by auto
  qed
  from 1 ct 2 sel 3 show ?thesis by blast
qed

text \<open>
  The token \<open>tls-socket\<close>, which contains two of the names, is refused. The sub-command
  \<open>tls\<close> with no configuration constructs a TLS connection. With a section that sets
  \<open>connection_type\<close> to \<open>tls-socket\<close> and gives a \<open>sockpath\<close>, the same sub-command
  constructs the socket connection, as the containment tests say.
\<close>

theorem connection_kind_dispatch_witness:
  "token (plain_cmdline ''tls-socket'') = Some ''tls-socket''
   \<and> parse_args calm_world builtin_defaults (plain_cmdline ''tls-socket'') = ([], Inl (Exit 2))
   \<and> Construct (TLSConnection ''gvm.example'' (Port_int 9390) None None None False (Some 60))
        \<in> set (trace calm_world tls_cmdline)
   \<and> token tls_cmdline = Some ''tls''
   \<and> Construct (UnixSocketConnection (Some ''/run/gvmd.sock'') False (Some 60))
        \<in> set (trace (calm_world\<lparr>read_config :=
                         (\<lambda>path. Inr [(''connection_type'', ''tls-socket''),
                                      (''sockpath'', ''/run/gvmd.sock'')])\<rparr>)
                   (tls_cmdline\<lparr>opt_config := Bare\<rparr>))
   \<and> contains ''socket'' ''tls-socket''"
proof -
  let ?c = "TLSConnection ''gvm.example'' (Port_int 9390) None None None False (Some 60)"
  let ?u = "UnixSocketConnection (Some ''/run/gvmd.sock'') False (Some 60)"
  let ?w = "calm_world\<lparr>read_config :=
                         (\<lambda>path. Inr [(''connection_type'', ''tls-socket''),
                                      (''sockpath'', ''/run/gvmd.sock'')])\<rparr>"
  let ?cl = "tls_cmdline\<lparr>opt_config := Bare\<rparr>"
  let ?a = "\<lparr>connection_type = ''tls-socket'', timeout = 60, loglevel = None,
            gmp_username = Some ''admin'', gmp_password = None, xml = Some ''<get_tasks/>'',
            raw = False, sub = Tls_args ''gvm.example'' (Port_int 9390) None None None,
            parser_defaults = dict [(''connection_type'', ''tls-socket''),
                                    (''sockpath'', ''/run/gvmd.sock'')]\<rparr>"
  have t0: "token (plain_cmdline ''tls-socket'') = Some ''tls-socket''"
    by (simp add: token_def token_of_def plain_cmdline_def)
  then have n: "token (plain_cmdline ''tls-socket'') \<noteq> Some ''ssh'' \<and>
           token (plain_cmdline ''tls-socket'') \<noteq> Some ''tls'' \<and>
           token (plain_cmdline ''tls-socket'') \<noteq> Some ''socket''"
    by simp
  from connection_kind_dispatch [of "plain_cmdline ''tls-socket''" calm_world] n
  have r: "parse_args calm_world builtin_defaults (plain_cmdline ''tls-socket'') = ([], Inl (Exit 2))"
    by blast
  have c: "Construct ?c \<in> set (trace calm_world tls_cmdline)"
    by (simp add: model_defs example_defs)
  have s: "\<forall>sec. config_section calm_world tls_cmdline = Some sec \<longrightarrow> sec ''connection_type'' = None"
    by (simp add: config_section_def config_path_def example_defs)
  from connection_kind_dispatch [of tls_cmdline calm_world] c s
  have t: "token tls_cmdline = Some (variant ?c)" by blast
  have a: "snd (effective_args ?w ?cl) = Inr ?a"
    by (simp add: model_defs example_defs)
  have u: "Construct ?u \<in> set (trace ?w ?cl)"
    by (simp add: model_defs example_defs)
  from connection_kind_dispatch [of ?cl ?w] a u
  have "variant ?u =
           (if contains ''socket'' (connection_type ?a) then ''socket''
            else if contains ''tls'' (connection_type ?a) then ''tls'' else ''ssh'')"
    by blast
  then have k: "contains ''socket'' ''tls-socket''"
    by (simp add: variant_def split: if_splits)
  from t0 r c t u k show ?thesis by (simp add: variant_def)
qed

text \<open>
  C9 as stated fails: with a section that sets \<open>connection_type\<close> to \<open>foo\<close> and gives an
  \<open>ssh_user\<close>, the sub-command \<open>tls\<close> is accepted and an SSH connection is constructed,
  the value \<open>foo\<close> being mapped to the default without notice.
\<close>

theorem dispatch_redirected_counterexample:
  "token (tls_cmdline\<lparr>opt_config := Bare\<rparr>) = Some ''tls''
   \<and> trace (calm_world\<lparr>read_config :=
               (\<lambda>path. Inr [(''connection_type'', ''foo''), (''ssh_user'', ''gmp'')])\<rparr>)
           (tls_cmdline\<lparr>opt_config := Bare\<rparr>)
     = [Getpass ''Enter password for admin: '',
        Construct (SSHConnection ''gvm.example'' (Port_int 9390) (Some 60) False ''gmp'' []),
        Authenticate ''admin'' (Some ''secret''), Send ''<get_tasks/>'', Read,
        Print ''<get_version_response status=200/>'', Close]
   \<and> result (calm_world\<lparr>read_config :=
               (\<lambda>path. Inr [(''connection_type'', ''foo''), (''ssh_user'', ''gmp'')])\<rparr>)
           (tls_cmdline\<lparr>opt_config := Bare\<rparr>) = Exit 0"
  by (simp add: model_defs example_defs)

subsection \<open>The empty payload flag\<close>

text \<open>
  C10. The flag \<open>--xml\<close> is given with the empty string. Then \<open>args.xml\<close> is not \<open>None\<close>,
  so lines 172 to 184 do not read the input stream, whether or not it is a terminal, and
  the input stream is read nowhere else in the run; the request is empty, so these lines
  call \<open>input()\<close> once and the request is the line it returned. In a run that gets to
  these lines, which is one whose set-up of logging returned, \<open>input()\<close> is called; and
  what is sent, if the run gets to \<open>send\<close>, is that line stripped.
\<close>

theorem empty_flag_falls_through_to_prompt:
  assumes a: "snd (effective_args w cl) = Inr a" and x: "opt_xml cl = Some []"
  shows "acquire_xml w a =
           ([Input], (case input_line w of Inr s \<Rightarrow> Inr s | Inl e \<Rightarrow> Inl (Uncaught e))) \<and>
         Infile_read \<notin> set (trace w cl) \<and>
         (snd (set_logging w a) = Inr () \<longrightarrow> Input \<in> set (trace w cl)) \<and>
         (\<forall>y. Send y \<in> set (trace w cl) \<longrightarrow> (\<exists>s. input_line w = Inr s \<and> y = strip_newlines s))"
proof -
  from effective_xml [OF a] x have xa: "xml a = Some []" by simp
  then have acq: "acquire_xml w a =
           ([Input], (case input_line w of Inr s \<Rightarrow> Inr s | Inl e \<Rightarrow> Inl (Uncaught e)))"
    by (auto simp: acquire_xml_def read_request_def ask_request_def call_value_def and_then_def
        split: sum.splits)
  have i: "Input \<in> set (trace w cl)" if "snd (set_logging w a) = Inr ()"
    using acquire_in_trace [OF a that, of Input] acq by simp
  have n: "Infile_read \<notin> set (trace w cl)"
  proof
    assume "Infile_read \<in> set (trace w cl)"
    from trace_members [OF this] a acq show False
      by (auto simp: no_read_outside_acquire)
  qed
  have s: "\<exists>s. input_line w = Inr s \<and> y = strip_newlines s" if "Send y \<in> set (trace w cl)" for y
  proof -
    from sent_is_stripped_request [OF that] a obtain p
      where "snd (acquire_xml w a) = Inr p" "y = strip_newlines p"
      by auto
    with acq show ?thesis by (auto split: sum.splits)
  qed
  from acq i n s show ?thesis by blast
qed

text \<open>Data is piped in, and the empty flag makes the run ask instead of reading it.\<close>

theorem empty_flag_falls_through_to_prompt_witness:
  "opt_xml ((plain_cmdline ''socket'')\<lparr>opt_xml := Some []\<rparr>) = Some []
   \<and> infile_read (calm_world\<lparr>isatty := False, infile_read := Inr ''<get_tasks/>''\<rparr>) = Inr ''<get_tasks/>''
   \<and> Input \<in> set (trace (calm_world\<lparr>isatty := False, infile_read := Inr ''<get_tasks/>''\<rparr>)
                     ((plain_cmdline ''socket'')\<lparr>opt_xml := Some []\<rparr>))
   \<and> Infile_read \<notin> set (trace (calm_world\<lparr>isatty := False, infile_read := Inr ''<get_tasks/>''\<rparr>)
                     ((plain_cmdline ''socket'')\<lparr>opt_xml := Some []\<rparr>))
   \<and> Send ''<get_version/>'' \<in> set (trace (calm_world\<lparr>isatty := False, infile_read := Inr ''<get_tasks/>''\<rparr>)
                     ((plain_cmdline ''socket'')\<lparr>opt_xml := Some []\<rparr>))"
proof -
  let ?w = "calm_world\<lparr>isatty := False, infile_read := Inr ''<get_tasks/>''\<rparr>"
  let ?cl = "(plain_cmdline ''socket'')\<lparr>opt_xml := Some []\<rparr>"
  let ?a = "\<lparr>connection_type = ''socket'', timeout = 60, loglevel = None,
            gmp_username = Some [], gmp_password = Some [], xml = Some [],
            raw = False, sub = Socket_args (Some ''/usr/local/var/run/gvmd.sock''),
            parser_defaults = builtin_defaults\<rparr>"
  have a: "snd (effective_args ?w ?cl) = Inr ?a"
    by (simp add: model_defs example_defs)
  have x: "opt_xml ?cl = Some []" by simp
  have l: "snd (set_logging ?w ?a) = Inr ()" by (simp add: set_logging_def)
  have s: "Send ''<get_version/>'' \<in> set (trace ?w ?cl)"
    by (simp add: model_defs example_defs)
  from empty_flag_falls_through_to_prompt [OF a x] l
  have "Input \<in> set (trace ?w ?cl) \<and> Infile_read \<notin> set (trace ?w ?cl)" by blast
  with x s show ?thesis by (simp add: calm_world_def)
qed

subsection \<open>Authentication\<close>

text \<open>
  C4, as the code has it. Whenever \<open>authenticate\<close> is called, its user name is the
  non-empty \<open>args.gmp_username\<close>; its password is \<open>args.gmp_password\<close> when that is
  non-empty, and otherwise the string that \<open>getpass\<close> returned for the prompt naming the
  user, whatever that string is. In a run that constructed its transport,
  \<open>authenticate\<close> is called if and only if the user name is non-empty.
\<close>

theorem authenticate_iff_username:
  assumes a: "snd (effective_args w cl) = Inr a"
  shows "(\<forall>u p. Authenticate u p \<in> set (trace w cl) \<longrightarrow>
            gmp_username a = Some u \<and> u \<noteq> [] \<and>
            (if truthy (gmp_password a) then p = gmp_password a
             else Getpass (''Enter password for '' @ u @ '': '') \<in> set (trace w cl) \<and>
                  (\<exists>s. getpass w (''Enter password for '' @ u @ '': '') = Inr s \<and> p = Some s))) \<and>
         ((\<exists>c. Construct c \<in> set (trace w cl) \<and> connect w c = None) \<longrightarrow>
            ((\<exists>u p. Authenticate u p \<in> set (trace w cl)) \<longleftrightarrow> truthy (gmp_username a)))"
proof (rule conjI)
  show "\<forall>u p. Authenticate u p \<in> set (trace w cl) \<longrightarrow>
            gmp_username a = Some u \<and> u \<noteq> [] \<and>
            (if truthy (gmp_password a) then p = gmp_password a
             else Getpass (''Enter password for '' @ u @ '': '') \<in> set (trace w cl) \<and>
                  (\<exists>s. getpass w (''Enter password for '' @ u @ '': '') = Inr s \<and> p = Some s))"
  proof (rule allI, rule allI, rule impI)
    fix u p assume h: "Authenticate u p \<in> set (trace w cl)"
    from authenticate_in_trace [OF h a] obtain x pw
      where l: "snd (set_logging w a) = Inr ()"
        and x: "snd (acquire_xml w a) = Inr x" and pw: "snd (ask_password w a) = Inr pw"
        and s: "Authenticate u p \<in> set (fst (session w a pw (strip_newlines x)))"
      by blast
    from s have u: "gmp_username a = Some u" "u \<noteq> []" and p: "p = pw"
      by (simp_all add: session_Authenticate)
    from u have tu: "truthy (gmp_username a)" by (simp add: truthy_def)
    have "if truthy (gmp_password a) then p = gmp_password a
          else Getpass (''Enter password for '' @ u @ '': '') \<in> set (trace w cl) \<and>
               (\<exists>s. getpass w (''Enter password for '' @ u @ '': '') = Inr s \<and> p = Some s)"
    proof (cases "truthy (gmp_password a)")
      case True
      with ask_password_result [OF pw] p show ?thesis by simp
    next
      case False
      with ask_password_result [OF pw] tu u p obtain s
        where gs: "getpass w (''Enter password for '' @ u @ '': '') = Inr s" "p = Some s"
          and g: "Getpass (''Enter password for '' @ u @ '': '') \<in> set (fst (ask_password w a))"
        by auto
      from g have "Getpass (''Enter password for '' @ u @ '': '') \<in> set (trace w cl)"
        by (simp add: trace_eq [OF a l x pw])
      with gs False show ?thesis by auto
    qed
    with u show "gmp_username a = Some u \<and> u \<noteq> [] \<and>
            (if truthy (gmp_password a) then p = gmp_password a
             else Getpass (''Enter password for '' @ u @ '': '') \<in> set (trace w cl) \<and>
                  (\<exists>s. getpass w (''Enter password for '' @ u @ '': '') = Inr s \<and> p = Some s))"
      by simp
  qed
next
  show "(\<exists>c. Construct c \<in> set (trace w cl) \<and> connect w c = None) \<longrightarrow>
            ((\<exists>u p. Authenticate u p \<in> set (trace w cl)) \<longleftrightarrow> truthy (gmp_username a))"
  proof (rule impI)
    assume "\<exists>c. Construct c \<in> set (trace w cl) \<and> connect w c = None"
    then obtain c where c: "Construct c \<in> set (trace w cl)" and n: "connect w c = None"
      by blast
    from construct_in_trace [OF c] a obtain x pw
      where l: "snd (set_logging w a) = Inr ()"
        and x: "snd (acquire_xml w a) = Inr x" and pw: "snd (ask_password w a) = Inr pw"
        and s: "select_connection a = Inr c"
      by auto
    from s n have o: "open_connection w a = ([Construct c], Inr ())"
      by (rule open_connection_ok)
    have mem: "Authenticate u p \<in> set (trace w cl) \<longleftrightarrow>
               Authenticate u p \<in> set (fst (session w a pw (strip_newlines x)))" for u p
      using a l x pw o by (rule in_trace_session) (simp add: session_call_def)
    show "(\<exists>u p. Authenticate u p \<in> set (trace w cl)) \<longleftrightarrow> truthy (gmp_username a)"
      by (auto simp: mem session_Authenticate truthy_def split: option.splits)
  qed
qed

text \<open>A TLS run with user \<open>admin\<close> and no password: the prompt's answer is passed on.\<close>

theorem authenticate_iff_username_witness:
  "snd (effective_args calm_world tls_cmdline)
     = Inr \<lparr>connection_type = ''tls'', timeout = 60, loglevel = None,
            gmp_username = Some ''admin'', gmp_password = Some [], xml = Some ''<get_tasks/>'',
            raw = False, sub = Tls_args ''gvm.example'' (Port_int 9390) None None None,
            parser_defaults = builtin_defaults\<rparr>
   \<and> Authenticate ''admin'' (Some ''secret'') \<in> set (trace calm_world tls_cmdline)
   \<and> Getpass ''Enter password for admin: '' \<in> set (trace calm_world tls_cmdline)
   \<and> getpass calm_world ''Enter password for admin: '' = Inr ''secret''"
proof -
  let ?a = "\<lparr>connection_type = ''tls'', timeout = 60, loglevel = None,
            gmp_username = Some ''admin'', gmp_password = Some [], xml = Some ''<get_tasks/>'',
            raw = False, sub = Tls_args ''gvm.example'' (Port_int 9390) None None None,
            parser_defaults = builtin_defaults\<rparr>"
  have a: "snd (effective_args calm_world tls_cmdline) = Inr ?a"
    by (simp add: model_defs example_defs tls_cmdline_def)
  have t: "Authenticate ''admin'' (Some ''secret'') \<in> set (trace calm_world tls_cmdline)"
    by (simp add: model_defs example_defs tls_cmdline_def)
  have f: "\<not> truthy (gmp_password ?a)" by (simp add: truthy_def)
  from authenticate_iff_username [OF a] t f
  have "Getpass (''Enter password for '' @ ''admin'' @ '': '') \<in> set (trace calm_world tls_cmdline) \<and>
        (\<exists>s. getpass calm_world (''Enter password for '' @ ''admin'' @ '': '') = Inr s \<and>
             Some ''secret'' = Some s)"
    by meson
  with a t show ?thesis by simp
qed

text \<open>
  C4 as stated fails twice. When the user answers the prompt with an empty line,
  \<open>authenticate\<close> is called with the empty password. When the connection is refused, the
  user name is non-empty and \<open>authenticate\<close> is not called.
\<close>

theorem authenticate_counterexample:
  "trace (calm_world\<lparr>getpass := (\<lambda>prompt. Inr [])\<rparr>) tls_cmdline
     = [Getpass ''Enter password for admin: '',
        Construct (TLSConnection ''gvm.example'' (Port_int 9390) None None None False (Some 60)),
        Authenticate ''admin'' (Some []), Send ''<get_tasks/>'', Read,
        Print ''<get_version_response status=200/>'', Close]
   \<and> trace (calm_world\<lparr>connect := (\<lambda>c. Some (Exn Other_Exception ''Connection refused''))\<rparr>)
        tls_cmdline
     = [Getpass ''Enter password for admin: '',
        Construct (TLSConnection ''gvm.example'' (Port_int 9390) None None None False (Some 60)),
        Print ''Connection refused'']
   \<and> snd (effective_args (calm_world\<lparr>connect := (\<lambda>c. Some (Exn Other_Exception ''Connection refused''))\<rparr>)
        tls_cmdline)
     = Inr \<lparr>connection_type = ''tls'', timeout = 60, loglevel = None,
            gmp_username = Some ''admin'', gmp_password = Some [], xml = Some ''<get_tasks/>'',
            raw = False, sub = Tls_args ''gvm.example'' (Port_int 9390) None None None,
            parser_defaults = builtin_defaults\<rparr>"
  by (simp add: model_defs example_defs tls_cmdline_def)

subsection \<open>An error of the configuration file\<close>

lemma namespace_opt_config: "namespace d (cl\<lparr>opt_config := v\<rparr>) c s = namespace d cl c s"
  by (simp add: namespace_def)

lemma parse_args_opt_config: "parse_args w d (cl\<lparr>opt_config := v\<rparr>) = parse_args w d cl"
  by (simp add: parse_args_def namespace_opt_config cong: option.case_cong)

lemma effective_args_no_config:
  "effective_args w (cl\<lparr>opt_config := Absent\<rparr>) = parse_args w builtin_defaults cl"
  by (cases "parse_args w builtin_defaults cl")
     (simp add: effective_args_def load_defaults_def config_path_def and_then_def
      parse_args_opt_config)

lemma effective_args_config_error:
  assumes "config_path cl = Some path" and "path \<noteq> []" and "read_config w path = Inl e"
    and "is_Exception e"
  shows "effective_args w cl =
           (Print (message e) # fst (parse_args w builtin_defaults cl),
            snd (parse_args w builtin_defaults cl))"
  using assms
  by (cases "parse_args w builtin_defaults cl")
     (simp add: effective_args_def load_defaults_def and_then_def)

lemma main_of_args:
  "effective_args w cl = (es, r) \<Longrightarrow>
     trace w cl = es @ (case r of Inl s \<Rightarrow> [] | Inr a \<Rightarrow> fst (run w a)) \<and>
     result w cl = (case r of Inl s \<Rightarrow> s
                    | Inr a \<Rightarrow> (case snd (run w a) of Inl s \<Rightarrow> s | Inr u \<Rightarrow> Exit 0))"
  by (auto simp: trace_def result_def main_def fst_finish snd_finish fst_and_then snd_and_then
      split: sum.splits)

text \<open>
  C8. A configuration path is given and reading the \<open>Auth\<close> section raises an
  \<open>Exception\<close>, as it does for a file that is missing, unreadable or malformed or that
  has no such section. Then the message is printed first, and from there the run is the
  run of the same command line without the configuration flag: same events, same end. The
  effective user name and password are the flags' values, and the empty strings of line
  91 where a flag is not given.
\<close>

theorem config_error_is_not_fatal:
  assumes "config_path cl = Some path" and "path \<noteq> []" and "read_config w path = Inl e"
    and "is_Exception e"
  shows "trace w cl = Print (message e) # trace w (cl\<lparr>opt_config := Absent\<rparr>) \<and>
         result w cl = result w (cl\<lparr>opt_config := Absent\<rparr>) \<and>
         (\<forall>a. snd (effective_args w cl) = Inr a \<longrightarrow>
            gmp_username a = (case opt_gmp_username cl of None \<Rightarrow> Some [] | Some v \<Rightarrow> Some v) \<and>
            gmp_password a = (case opt_gmp_password cl of None \<Rightarrow> Some [] | Some v \<Rightarrow> Some v))"
proof -
  obtain es r where p: "parse_args w builtin_defaults cl = (es, r)"
    by (cases "parse_args w builtin_defaults cl")
  have e1: "effective_args w cl = (Print (message e) # es, r)"
    using effective_args_config_error [OF assms] p by simp
  have e2: "effective_args w (cl\<lparr>opt_config := Absent\<rparr>) = (es, r)"
    using effective_args_no_config [of w cl] p by simp
  from main_of_args [OF e1] main_of_args [OF e2]
  have 1: "trace w cl = Print (message e) # trace w (cl\<lparr>opt_config := Absent\<rparr>)"
    and 2: "result w cl = result w (cl\<lparr>opt_config := Absent\<rparr>)"
    by simp_all
  have 3: "gmp_username a = (case opt_gmp_username cl of None \<Rightarrow> Some [] | Some v \<Rightarrow> Some v) \<and>
           gmp_password a = (case opt_gmp_password cl of None \<Rightarrow> Some [] | Some v \<Rightarrow> Some v)"
    if "snd (effective_args w cl) = Inr a" for a
  proof -
    from that e1 p have "snd (parse_args w builtin_defaults cl) = Inr a" by simp
    from parse_args_fields [OF this] show ?thesis
      by (auto simp: namespace_fields option_value_def builtin_defaults_def split: option.splits)
  qed
  from 1 2 3 show ?thesis by blast
qed

text \<open>
  The default path is given bare and the file has no \<open>Auth\<close> section: the error is printed
  and the session runs to its end.
\<close>

theorem config_error_is_not_fatal_witness:
  "config_path ((plain_cmdline ''socket'')\<lparr>opt_config := Bare\<rparr>) = Some ''~/.config/gvm-tools.conf''
   \<and> read_config calm_world ''~/.config/gvm-tools.conf'' = Inl (Exn Other_Exception ''No section: Auth'')
   \<and> trace calm_world ((plain_cmdline ''socket'')\<lparr>opt_config := Bare\<rparr>)
       = [Print ''No section: Auth'', Input,
          Construct (UnixSocketConnection (Some ''/usr/local/var/run/gvmd.sock'') False (Some 60)),
          Send ''<get_version/>'', Read, Print ''<get_version_response status=200/>'', Close]
   \<and> result calm_world ((plain_cmdline ''socket'')\<lparr>opt_config := Bare\<rparr>) = Exit 0"
proof -
  let ?cl = "(plain_cmdline ''socket'')\<lparr>opt_config := Bare\<rparr>"
  have p: "config_path ?cl = Some ''~/.config/gvm-tools.conf''"
    by (simp add: config_path_def plain_cmdline_def)
  have n: "''~/.config/gvm-tools.conf'' \<noteq> []" by simp
  have r: "read_config calm_world ''~/.config/gvm-tools.conf''
             = Inl (Exn Other_Exception ''No section: Auth'')"
    by (simp add: calm_world_def)
  have e: "is_Exception (Exn Other_Exception ''No section: Auth'')"
    by (simp add: is_Exception_def)
  have c: "?cl\<lparr>opt_config := Absent\<rparr> = plain_cmdline ''socket''"
    by (simp add: plain_cmdline_def)
  have t: "trace calm_world (plain_cmdline ''socket'')
       = [Input,
          Construct (UnixSocketConnection (Some ''/usr/local/var/run/gvmd.sock'') False (Some 60)),
          Send ''<get_version/>'', Read, Print ''<get_version_response status=200/>'', Close]"
    and x: "result calm_world (plain_cmdline ''socket'') = Exit 0"
    by (simp_all add: model_defs example_defs)
  from config_error_is_not_fatal [OF p n r e] c t x p r show ?thesis by simp
qed

subsection \<open>An empty request\<close>

lemma acquire_xml_result:
  assumes "snd (acquire_xml w a) = Inr p"
  shows "\<exists>q. snd (read_request w a) = Inr q \<and>
           (if q = [] then input_line w = Inr p \<and> Input \<in> set (fst (acquire_xml w a))
            else p = q)"
  using assms
  by (cases "read_request w a")
     (auto simp: acquire_xml_def ask_request_def call_value_def and_then_def
      split: sum.splits if_splits prod.splits)

lemma strip_newlines_nonempty:
  "strip_newlines p \<noteq> [] \<longleftrightarrow> (\<exists>ch\<in>set p. ch \<noteq> CHR 0x0A \<and> ch \<noteq> CHR 0x0D)"
  by (auto simp: strip_newlines_filter filter_empty_conv)

text \<open>
  C7, as the code has it. The emptiness test of line 183 comes before the stripping of
  line 187 and is made once. What is passed to \<open>send\<close> is the acquired request stripped,
  and it is non-empty exactly when the acquired request has a character other than
  newline and carriage return. When the flag, the configuration and the input stream left
  the request empty, \<open>input()\<close> was called and the acquired request is the line it
  returned, which may be empty; otherwise it is what they gave.
\<close>

theorem sent_payload_nonempty_iff:
  assumes "Send x \<in> set (trace w cl)"
  shows "\<exists>a p q. snd (effective_args w cl) = Inr a \<and> snd (read_request w a) = Inr q \<and>
           snd (acquire_xml w a) = Inr p \<and>
           (if q = [] then input_line w = Inr p \<and> Input \<in> set (trace w cl) else p = q) \<and>
           x = strip_newlines p \<and>
           (x \<noteq> [] \<longleftrightarrow> (\<exists>ch\<in>set p. ch \<noteq> CHR 0x0A \<and> ch \<noteq> CHR 0x0D))"
proof -
  from sent_is_stripped_request [OF assms] obtain a p
    where a: "snd (effective_args w cl) = Inr a" and l: "snd (set_logging w a) = Inr ()"
      and p: "snd (acquire_xml w a) = Inr p"
      and x: "x = strip_newlines p"
    by blast
  from acquire_xml_result [OF p] obtain q where q: "snd (read_request w a) = Inr q"
    and c: "if q = [] then input_line w = Inr p \<and> Input \<in> set (fst (acquire_xml w a)) else p = q"
    by blast
  from c acquire_in_trace [OF a l, of Input]
  have c': "if q = [] then input_line w = Inr p \<and> Input \<in> set (trace w cl) else p = q"
    by (auto split: if_splits)
  from x have "x \<noteq> [] \<longleftrightarrow> (\<exists>ch\<in>set p. ch \<noteq> CHR 0x0A \<and> ch \<noteq> CHR 0x0D)"
    by (simp add: strip_newlines_nonempty)
  with a p q c' x show ?thesis by blast
qed

text \<open>Nothing is given; the user types \<open><get_version/>\<close>, and that is sent.\<close>

theorem sent_payload_nonempty_iff_witness:
  "Send ''<get_version/>'' \<in> set (trace calm_world (plain_cmdline ''socket''))
   \<and> Input \<in> set (trace calm_world (plain_cmdline ''socket''))
   \<and> input_line calm_world = Inr ''<get_version/>''
   \<and> ''<get_version/>'' \<noteq> []"
proof -
  have s: "Send ''<get_version/>'' \<in> set (trace calm_world (plain_cmdline ''socket''))"
    by (simp add: model_defs example_defs)
  have r: "snd (read_request calm_world a) = Inr q \<Longrightarrow> xml a = None \<Longrightarrow> q = []" for a q
    by (simp add: read_request_def calm_world_def)
  have e: "snd (effective_args calm_world (plain_cmdline ''socket'')) = Inr a \<Longrightarrow> xml a = None" for a
    by (auto simp: model_defs example_defs)
  from sent_payload_nonempty_iff [OF s] obtain a p q
    where "snd (effective_args calm_world (plain_cmdline ''socket'')) = Inr a"
      and "snd (read_request calm_world a) = Inr q"
      and "if q = [] then input_line calm_world = Inr p \<and>
                          Input \<in> set (trace calm_world (plain_cmdline ''socket''))
           else p = q"
    by blast
  with r e have "Input \<in> set (trace calm_world (plain_cmdline ''socket''))"
    by (auto split: if_splits)
  with s show ?thesis by (simp add: calm_world_def)
qed

text \<open>
  C7 as stated fails: the flag \<open>--xml\<close> with a lone newline is not empty at line 183 and is
  empty when sent; and an empty line typed at the prompt is sent as it is.
\<close>

theorem empty_payload_sent_counterexample:
  "trace calm_world ((plain_cmdline ''socket'')\<lparr>opt_xml := Some [CHR 0x0A]\<rparr>)
     = [Construct (UnixSocketConnection (Some ''/usr/local/var/run/gvmd.sock'') False (Some 60)),
        Send [], Read, Print ''<get_version_response status=200/>'', Close]
   \<and> trace (calm_world\<lparr>input_line := Inr []\<rparr>) (plain_cmdline ''socket'')
     = [Input,
        Construct (UnixSocketConnection (Some ''/usr/local/var/run/gvmd.sock'') False (Some 60)),
        Send [], Read, Print ''<get_version_response status=200/>'', Close]"
  by (simp add: model_defs example_defs)

subsection \<open>Where the request comes from\<close>

lemma read_request_events: "Input \<notin> set (fst (read_request w a))"
  by (auto simp: read_request_def split: option.splits sum.splits if_splits)

text \<open>
  C5, as the code has it. \<open>args.xml\<close> is the value of the flag \<open>--xml\<close> when it is given;
  when it is not, it is the \<open>xml\<close> entry of the configuration section that was loaded, if
  there is one (line 106 makes every entry of the section a default of the parser). When
  \<open>args.xml\<close> has a value, that value is the request and the input stream is not read.
  Otherwise, when the input stream is not a terminal, it is read whole, and an
  \<open>EOFError\<close> or \<open>BlockingIOError\<close> of the read is printed and leaves the empty string;
  when it is a terminal the request is empty. After that, \<open>input()\<close> is called once if the
  request is empty and not at all if it is not.
\<close>

theorem payload_precedence:
  assumes a: "snd (effective_args w cl) = Inr a"
  shows "xml a = (case opt_xml cl of
                    Some v \<Rightarrow> Some v
                  | None \<Rightarrow> (case config_section w cl of Some sec \<Rightarrow> sec ''xml'' | None \<Rightarrow> None)) \<and>
         (\<forall>x. xml a = Some x \<longrightarrow> read_request w a = ([], Inr x)) \<and>
         (xml a = None \<and> \<not> isatty w \<longrightarrow>
            Infile_read \<in> set (fst (read_request w a)) \<and>
            (\<forall>s. infile_read w = Inr s \<longrightarrow> read_request w a = ([Infile_read], Inr s)) \<and>
            (\<forall>e. infile_read w = Inl e \<and> (exn_class e = EOFError \<or> exn_class e = BlockingIOError) \<longrightarrow>
               read_request w a = ([Infile_read, Print (message e)], Inr []))) \<and>
         (xml a = None \<and> isatty w \<longrightarrow> read_request w a = ([], Inr [])) \<and>
         (\<forall>es q. read_request w a = (es, Inr q) \<longrightarrow>
            Input \<notin> set es \<and>
            (q \<noteq> [] \<longrightarrow> acquire_xml w a = (es, Inr q)) \<and>
            (q = [] \<longrightarrow> acquire_xml w a =
               (es @ [Input], (case input_line w of Inr s \<Rightarrow> Inr s | Inl e \<Rightarrow> Inl (Uncaught e)))))"
proof -
  have 1: "xml a = (case opt_xml cl of
                    Some v \<Rightarrow> Some v
                  | None \<Rightarrow> (case config_section w cl of Some sec \<Rightarrow> sec ''xml'' | None \<Rightarrow> None))"
    using a by (rule effective_xml)
  have 2: "\<forall>x. xml a = Some x \<longrightarrow> read_request w a = ([], Inr x)"
    by (simp add: read_request_def)
  have 3: "xml a = None \<and> \<not> isatty w \<longrightarrow>
            Infile_read \<in> set (fst (read_request w a)) \<and>
            (\<forall>s. infile_read w = Inr s \<longrightarrow> read_request w a = ([Infile_read], Inr s)) \<and>
            (\<forall>e. infile_read w = Inl e \<and> (exn_class e = EOFError \<or> exn_class e = BlockingIOError) \<longrightarrow>
               read_request w a = ([Infile_read, Print (message e)], Inr []))"
    by (auto simp: read_request_def split: sum.splits)
  have 4: "xml a = None \<and> isatty w \<longrightarrow> read_request w a = ([], Inr [])"
    by (simp add: read_request_def)
  have 5: "\<forall>es q. read_request w a = (es, Inr q) \<longrightarrow>
            Input \<notin> set es \<and>
            (q \<noteq> [] \<longrightarrow> acquire_xml w a = (es, Inr q)) \<and>
            (q = [] \<longrightarrow> acquire_xml w a =
               (es @ [Input], (case input_line w of Inr s \<Rightarrow> Inr s | Inl e \<Rightarrow> Inl (Uncaught e))))"
  proof (intro allI impI)
    fix es q assume r: "read_request w a = (es, Inr q)"
    from read_request_events [of w a] r have "Input \<notin> set es" by simp
    moreover from r have "q \<noteq> [] \<longrightarrow> acquire_xml w a = (es, Inr q)"
      by (simp add: acquire_xml_def ask_request_def and_then_def)
    moreover from r have "q = [] \<longrightarrow> acquire_xml w a =
               (es @ [Input], (case input_line w of Inr s \<Rightarrow> Inr s | Inl e \<Rightarrow> Inl (Uncaught e)))"
      by (auto simp: acquire_xml_def ask_request_def and_then_def call_value_def split: sum.splits)
    ultimately show "Input \<notin> set es \<and>
            (q \<noteq> [] \<longrightarrow> acquire_xml w a = (es, Inr q)) \<and>
            (q = [] \<longrightarrow> acquire_xml w a =
               (es @ [Input], (case input_line w of Inr s \<Rightarrow> Inr s | Inl e \<Rightarrow> Inl (Uncaught e))))"
      by blast
  qed
  from 1 2 3 4 5 show ?thesis by blast
qed

text \<open>No flag, and \<open><get_tasks/>\<close> piped in: the stream is read and nothing is asked.\<close>

theorem payload_precedence_witness:
  "snd (effective_args piped_world (plain_cmdline ''socket''))
     = Inr \<lparr>connection_type = ''socket'', timeout = 60, loglevel = None,
            gmp_username = Some [], gmp_password = Some [], xml = None,
            raw = False, sub = Socket_args (Some ''/usr/local/var/run/gvmd.sock''),
            parser_defaults = builtin_defaults\<rparr>
   \<and> \<not> isatty piped_world
   \<and> infile_read piped_world = Inr ''<get_tasks/>''
   \<and> acquire_xml piped_world
        \<lparr>connection_type = ''socket'', timeout = 60, loglevel = None,
         gmp_username = Some [], gmp_password = Some [], xml = None,
         raw = False, sub = Socket_args (Some ''/usr/local/var/run/gvmd.sock''),
            parser_defaults = builtin_defaults\<rparr>
     = ([Infile_read], Inr ''<get_tasks/>'')"
proof -
  let ?a = "\<lparr>connection_type = ''socket'', timeout = 60, loglevel = None,
            gmp_username = Some [], gmp_password = Some [], xml = None,
            raw = False, sub = Socket_args (Some ''/usr/local/var/run/gvmd.sock''),
            parser_defaults = builtin_defaults\<rparr>"
  have a: "snd (effective_args piped_world (plain_cmdline ''socket'')) = Inr ?a"
    by (simp add: model_defs example_defs piped_world_def)
  have x: "xml ?a = None" by simp
  have t: "\<not> isatty piped_world" and i: "infile_read piped_world = Inr ''<get_tasks/>''"
    by (simp_all add: piped_world_def calm_world_def)
  from payload_precedence [OF a] x t i
  have r: "read_request piped_world ?a = ([Infile_read], Inr ''<get_tasks/>'')"
    by blast
  have n: "''<get_tasks/>'' \<noteq> []" by simp
  from payload_precedence [OF a] r n
  have "acquire_xml piped_world ?a = ([Infile_read], Inr ''<get_tasks/>'')"
    by blast
  with a t i show ?thesis by simp
qed

text \<open>
  C5 as stated fails: the flag is not given and data is piped in, but the configuration
  section has an \<open>xml\<close> entry; that entry is sent and the stream is never read.
\<close>

theorem config_payload_counterexample:
  "opt_xml ((plain_cmdline ''socket'')\<lparr>opt_config := Bare\<rparr>) = None
   \<and> \<not> isatty (piped_world\<lparr>read_config := (\<lambda>path. Inr [(''xml'', ''<get_version/>'')])\<rparr>)
   \<and> trace (piped_world\<lparr>read_config := (\<lambda>path. Inr [(''xml'', ''<get_version/>'')])\<rparr>)
           ((plain_cmdline ''socket'')\<lparr>opt_config := Bare\<rparr>)
       = [Construct (UnixSocketConnection (Some ''/usr/local/var/run/gvmd.sock'') False (Some 60)),
          Send ''<get_version/>'', Read, Print ''<get_version_response status=200/>'', Close]
   \<and> Infile_read \<notin> set (trace (piped_world\<lparr>read_config := (\<lambda>path. Inr [(''xml'', ''<get_version/>'')])\<rparr>)
           ((plain_cmdline ''socket'')\<lparr>opt_config := Bare\<rparr>))"
  by (simp add: model_defs example_defs piped_world_def)

subsection \<open>The layers of the configuration\<close>

text \<open>
  C2, as the code has it, for the two keys that line 91 gives a default. A flag on the
  command line wins. Without the flag, the value is that of the configuration section
  when a section was loaded: line 102 replaces the dictionary of line 91 by the section,
  so a key that the section omits has no value (\<open>None\<close>) rather than the default of line
  91. The default of line 91 is the value only when no section was loaded, because no
  path was given or because loading raised.
\<close>

theorem effective_credentials:
  assumes a: "snd (effective_args w cl) = Inr a"
  shows "gmp_username a =
           (case opt_gmp_username cl of
              Some v \<Rightarrow> Some v
            | None \<Rightarrow> (case config_section w cl of
                         Some sec \<Rightarrow> sec ''gmp_username''
                       | None \<Rightarrow> builtin_defaults ''gmp_username'')) \<and>
         gmp_password a =
           (case opt_gmp_password cl of
              Some v \<Rightarrow> Some v
            | None \<Rightarrow> (case config_section w cl of
                         Some sec \<Rightarrow> sec ''gmp_password''
                       | None \<Rightarrow> builtin_defaults ''gmp_password''))"
proof -
  from parse_args_fields [OF effective_defaults [OF a]] show ?thesis
    by (auto simp: namespace_fields option_value_def split: option.splits)
qed

text \<open>
  The section gives the user name and a flag gives the password: each is the effective
  value.
\<close>

theorem effective_credentials_witness:
  "snd (effective_args config_world (config_cmdline\<lparr>opt_gmp_password := Some ''pw''\<rparr>))
     = Inr \<lparr>connection_type = ''socket'', timeout = 60, loglevel = None,
            gmp_username = Some ''admin'', gmp_password = Some ''pw'', xml = Some ''<get_tasks/>'',
            raw = False, sub = Socket_args (Some ''/usr/local/var/run/gvmd.sock''),
            parser_defaults = dict [(''gmp_username'', ''admin'')]\<rparr>
   \<and> opt_gmp_username (config_cmdline\<lparr>opt_gmp_password := Some ''pw''\<rparr>) = None
   \<and> (case config_section config_world (config_cmdline\<lparr>opt_gmp_password := Some ''pw''\<rparr>) of
          Some sec \<Rightarrow> sec ''gmp_username'' | None \<Rightarrow> builtin_defaults ''gmp_username'')
       = Some ''admin''"
proof -
  let ?cl = "config_cmdline\<lparr>opt_gmp_password := Some ''pw''\<rparr>"
  let ?a = "\<lparr>connection_type = ''socket'', timeout = 60, loglevel = None,
            gmp_username = Some ''admin'', gmp_password = Some ''pw'', xml = Some ''<get_tasks/>'',
            raw = False, sub = Socket_args (Some ''/usr/local/var/run/gvmd.sock''),
            parser_defaults = dict [(''gmp_username'', ''admin'')]\<rparr>"
  have a: "snd (effective_args config_world ?cl) = Inr ?a"
    by (simp add: model_defs example_defs config_world_def config_cmdline_def)
  have u: "opt_gmp_username ?cl = None"
    by (simp add: config_cmdline_def plain_cmdline_def)
  from effective_credentials [OF a] u
  have "(case config_section config_world ?cl of
          Some sec \<Rightarrow> sec ''gmp_username'' | None \<Rightarrow> builtin_defaults ''gmp_username'')
       = Some ''admin''"
    by simp
  with a u show ?thesis by simp
qed

text \<open>
  C2 as stated fails: the section omits the password and no flag gives one, and the
  effective password is \<open>None\<close>, not the empty string of line 91.
\<close>

theorem config_replaces_defaults_counterexample:
  "opt_gmp_password config_cmdline = None
   \<and> config_section config_world config_cmdline = Some (dict [(''gmp_username'', ''admin'')])
   \<and> dict [(''gmp_username'', ''admin'')] ''gmp_password'' = None
   \<and> builtin_defaults ''gmp_password'' = Some []
   \<and> snd (effective_args config_world config_cmdline)
       = Inr \<lparr>connection_type = ''socket'', timeout = 60, loglevel = None,
              gmp_username = Some ''admin'', gmp_password = None, xml = Some ''<get_tasks/>'',
              raw = False, sub = Socket_args (Some ''/usr/local/var/run/gvmd.sock''),
            parser_defaults = dict [(''gmp_username'', ''admin'')]\<rparr>"
  by (simp add: model_defs example_defs config_world_def config_cmdline_def config_section_def)

end
